theory Spec2Isabelle
  imports Main "HOL-Library.AList" "HOL-Library.Sublist"
begin

section \<open>Python strings\<close>

text \<open>
  A Python \<open>str\<close> is a sequence of Unicode code points; \<open>len\<close>, slicing and
  \<open>strip\<close> count code points. The model keeps that: a string is the list of its code
  points, \<open>ascii\<close> embeds an ASCII literal, and a character outside ASCII is written as its
  code point (\<open>[243]\<close> is the letter o with an acute accent).
\<close>

type_synonym str = "nat list"

definition ascii :: "string \<Rightarrow> str" where
  "ascii s = map of_char s"

text \<open>\<open>str.isspace\<close> for one code point: the characters Python treats as whitespace.\<close>

definition isspace :: "nat \<Rightarrow> bool" where
  "isspace c \<longleftrightarrow>
     (9 \<le> c \<and> c \<le> 13) \<or> (28 \<le> c \<and> c \<le> 32) \<or> c = 133 \<or> c = 160 \<or> c = 5760 \<or>
     (8192 \<le> c \<and> c \<le> 8202) \<or> c = 8232 \<or> c = 8233 \<or> c = 8239 \<or> c = 8287 \<or> c = 12288"

text \<open>\<open>s.strip()\<close>: whitespace removed at both ends.\<close>

definition strip :: "str \<Rightarrow> str" where
  "strip s = rev (dropWhile isspace (rev (dropWhile isspace s)))"

text \<open>Truthiness of a string: \<open>if s:\<close> holds for a non-empty string.\<close>

definition truthy :: "str \<Rightarrow> bool" where
  "truthy s \<longleftrightarrow> s \<noteq> []"

section \<open>The agent framework's objects\<close>

text \<open>
  The objects of the CrewAI package that the program builds, with the keyword arguments the
  program passes. A task's context (\<open>task_context\<close>) is the list of tasks whose output it receives;
  \<open>None\<close> stands for a task built without that argument.
\<close>

record LLM =
  model :: str
  base_url :: str

record Agent =
  role :: str
  goal :: str
  backstory :: str
  verbose :: bool
  allow_delegation :: bool
  llm :: LLM

datatype Task = Task (description: str) (agent: Agent) (expected_output: str)
  (task_context: "Task list option")

record Crew =
  agents :: "Agent list"
  tasks :: "Task list"
  crew_verbose :: bool

section \<open>Effects of a worker thread\<close>

text \<open>
  Every call that leaves the program is a \<open>call\<close>; the environment decides whether it
  raises. An exception is represented by its message \<open>str(e)\<close>, the only part of it the
  handlers read, and all exceptions of the model are instances of \<open>Exception\<close>.
\<close>

datatype call =
    LLM_init LLM
  | Agent_init Agent
  | Task_init Task
  | Crew_init Crew
  | Crew_kickoff Crew
  | Tempfile_mkdtemp
  | Os_makedirs str
  | Open_w str
  | File_write str str
  | Os_getcwd
  | ZipFile_open str
  | ZipFile_write str str
  | ZipFile_close str
  | Shutil_rmtree str

datatype signal =
    Progress str
  | Finished str
  | Finished2 str "str option"
  | Error str

datatype event =
    Emit signal
  | Logging_info str
  | Logging_error str
  | Called call

section \<open>Paths, time stamps and the file system\<close>

text \<open>
  Paths are POSIX paths. \<open>os_path_join\<close> is \<open>os.path.join\<close> for two arguments,
  \<open>resolve\<close> the list of components of \<open>os.path.abspath\<close> (the working directory is
  put in front of a relative path; empty components and \<open>.\<close> are dropped and \<open>..\<close>
  removes the component before it), and \<open>os_path_relpath\<close> is \<open>os.path.relpath\<close>.
\<close>

definition sep :: nat where
  "sep = 47"

fun split_sep :: "str \<Rightarrow> str list" where
  "split_sep [] = [[]]"
| "split_sep (c # cs) =
     (if c = sep then [] # split_sep cs
      else (case split_sep cs of [] \<Rightarrow> [[c]] | p # ps \<Rightarrow> (c # p) # ps))"

definition isabs :: "str \<Rightarrow> bool" where
  "isabs p \<longleftrightarrow> (case p of [] \<Rightarrow> False | c # _ \<Rightarrow> c = sep)"

definition os_path_join :: "str \<Rightarrow> str \<Rightarrow> str" where
  "os_path_join a b =
     (if isabs b then b
      else if a = [] \<or> last a = sep then a @ b
      else a @ [sep] @ b)"

fun norm :: "str list \<Rightarrow> str list \<Rightarrow> str list" where
  "norm acc [] = acc"
| "norm acc (c # cs) =
     norm (if c = [] \<or> c = ascii ''.'' then acc
           else if c = ascii ''..'' then butlast acc
           else acc @ [c]) cs"

definition resolve :: "str \<Rightarrow> str \<Rightarrow> str list" where
  "resolve cwd p = norm [] (split_sep (if isabs p then p else os_path_join cwd p))"

definition os_path_relpath :: "str \<Rightarrow> str \<Rightarrow> str \<Rightarrow> str" where
  "os_path_relpath cwd path start =
     (let start_list = resolve cwd start;
          path_list = resolve cwd path;
          i = length (longest_common_prefix start_list path_list);
          rel_list = replicate (length start_list - i) (ascii ''..'') @ drop i path_list
      in case rel_list of [] \<Rightarrow> ascii ''.'' | r # rs \<Rightarrow> foldl os_path_join r rs)"

text \<open>
  \<open>datetime.now().strftime("%Y%m%d_%H%M%S")\<close>: the year on four digits, the other fields
  on two, zero-padded.
\<close>

record datetime =
  year :: nat
  month :: nat
  day :: nat
  hour :: nat
  minute :: nat
  second :: nat

fun digits :: "nat \<Rightarrow> str" where
  "digits n = (if n < 10 then [48 + n] else digits (n div 10) @ [48 + n mod 10])"

definition zfill :: "nat \<Rightarrow> str \<Rightarrow> str" where
  "zfill k s = replicate (k - length s) 48 @ s"

definition strftime_Ymd_HMS :: "datetime \<Rightarrow> str" where
  "strftime_Ymd_HMS t =
     zfill 4 (digits (year t)) @ zfill 2 (digits (month t)) @ zfill 2 (digits (day t))
     @ ascii ''_''
     @ zfill 2 (digits (hour t)) @ zfill 2 (digits (minute t)) @ zfill 2 (digits (second t))"

text \<open>
  The file system is a tree: a directory holds its entries by name, a regular file holds
  text or, for a zip archive, the list of its members (archive name and content) in the
  order they were written.
\<close>

datatype content = Text str | Zip "(str \<times> content) list"

datatype node = File content | Dir "(str \<times> node) list"

fun lookup :: "node \<Rightarrow> str list \<Rightarrow> node option" where
  "lookup n [] = Some n"
| "lookup (Dir es) (c # cs) = (case map_of es c of None \<Rightarrow> None | Some m \<Rightarrow> lookup m cs)"
| "lookup (File _) (c # cs) = None"

text \<open>
  \<open>mkdir\<close> creates one directory: the parent must be a directory and the name must be free.
  \<open>makedirs\<close> is \<open>os.makedirs\<close> without \<open>exist_ok\<close>: missing parents are created and an
  existing leaf is an error. \<open>put_file\<close> creates or truncates a regular file (opening for
  writing): the parent must be a directory and the name must not be a directory.
  \<open>rmtree\<close> removes a directory with everything below it. Each returns \<open>None\<close> where
  the operating system reports an error.
\<close>

fun chain :: "str list \<Rightarrow> node" where
  "chain [] = Dir []"
| "chain (c # cs) = Dir [(c, chain cs)]"

fun mkdir :: "node \<Rightarrow> str list \<Rightarrow> node option" where
  "mkdir n [] = None"
| "mkdir (Dir es) [c] =
     (case map_of es c of None \<Rightarrow> Some (Dir (AList.update c (Dir []) es)) | Some _ \<Rightarrow> None)"
| "mkdir (Dir es) (c # c' # cs) =
     (case map_of es c of None \<Rightarrow> None
      | Some m \<Rightarrow> map_option (\<lambda>m'. Dir (AList.update c m' es)) (mkdir m (c' # cs)))"
| "mkdir (File _) (c # cs) = None"

fun makedirs :: "node \<Rightarrow> str list \<Rightarrow> node option" where
  "makedirs n [] = None"
| "makedirs (Dir es) (c # cs) =
     (case map_of es c of None \<Rightarrow> Some (Dir (AList.update c (chain cs) es))
      | Some m \<Rightarrow> map_option (\<lambda>m'. Dir (AList.update c m' es)) (makedirs m cs))"
| "makedirs (File _) (c # cs) = None"

fun put_file :: "node \<Rightarrow> str list \<Rightarrow> content \<Rightarrow> node option" where
  "put_file n [] v = None"
| "put_file (Dir es) [c] v =
     (case map_of es c of Some (Dir _) \<Rightarrow> None | _ \<Rightarrow> Some (Dir (AList.update c (File v) es)))"
| "put_file (Dir es) (c # c' # cs) v =
     (case map_of es c of None \<Rightarrow> None
      | Some m \<Rightarrow> map_option (\<lambda>m'. Dir (AList.update c m' es)) (put_file m (c' # cs) v))"
| "put_file (File _) (c # cs) v = None"

fun rmtree :: "node \<Rightarrow> str list \<Rightarrow> node option" where
  "rmtree n [] = None"
| "rmtree (Dir es) [c] =
     (case map_of es c of Some (Dir _) \<Rightarrow> Some (Dir (AList.delete c es)) | _ \<Rightarrow> None)"
| "rmtree (Dir es) (c # c' # cs) =
     (case map_of es c of None \<Rightarrow> None
      | Some m \<Rightarrow> map_option (\<lambda>m'. Dir (AList.update c m' es)) (rmtree m (c' # cs)))"
| "rmtree (File _) (c # cs) = None"

text \<open>
  \<open>os.walk(top)\<close>: for the directory at \<open>top\<close> and every directory below it, top-down, the
  triple of its path, the names of its subdirectories and the names of its files.
\<close>

fun is_dir :: "node \<Rightarrow> bool" where
  "is_dir (Dir _) = True"
| "is_dir (File _) = False"

fun walk :: "str \<Rightarrow> node \<Rightarrow> (str \<times> str list \<times> str list) list"
  and walk_entries :: "str \<Rightarrow> (str \<times> node) list \<Rightarrow> (str \<times> str list \<times> str list) list" where
  "walk root (Dir es) =
     (root, map fst (filter (\<lambda>e. is_dir (snd e)) es), map fst (filter (\<lambda>e. \<not> is_dir (snd e)) es))
     # walk_entries root es"
| "walk root (File _) = []"
| "walk_entries root [] = []"
| "walk_entries root (e # es) =
     (if is_dir (snd e) then walk (os_path_join root (fst e)) (snd e) else [])
     @ walk_entries root es"

text \<open>Encoding to UTF-8 fails on a lone surrogate.\<close>

definition utf8_encodable :: "str \<Rightarrow> bool" where
  "utf8_encodable s \<longleftrightarrow> (\<forall>c \<in> set s. \<not> (55296 \<le> c \<and> c \<le> 57343))"

section \<open>The environment and the effect monad\<close>

text \<open>
  What the program cannot decide is a field of the environment: whether a call raises and
  with which message (\<open>raises\<close>), the message of the operating system's error where the
  file system refuses an operation (\<open>oserror\<close>), the text \<open>str(result)\<close> of what the crew
  returns, the clock, the name \<open>tempfile.mkdtemp\<close> chooses, the working directory, Python's
  rendering \<open>str(d)\<close> of a dictionary, and what the signal machinery does when
  \<open>None\<close> is emitted for an argument declared \<open>str\<close> (\<open>Some m\<close>: it raises a
  \<open>TypeError\<close> with message \<open>m\<close>; \<open>None\<close>: it delivers the signal).
\<close>

datatype pyval = PyStr str | PyBool bool

type_synonym config = "(str \<times> pyval) list"

record env =
  raises :: "call \<Rightarrow> str option"
  oserror :: "call \<Rightarrow> str"
  kickoff_output :: "Crew \<Rightarrow> str"
  now :: datetime
  mkdtemp_path :: str
  getcwd :: str
  str_of_config :: "config \<Rightarrow> str"
  emit_none_error :: "str option"

text \<open>
  The state a worker changes: the sequence of its observable events and the file system.
  A computation returns a value or raises (\<open>Inl\<close> carries the exception's message),
  together with the state it leaves; what was emitted before an exception stays emitted.
\<close>

record world =
  trace :: "event list"
  fs :: node

type_synonym 'a io = "world \<Rightarrow> (str + 'a) \<times> world"

definition io_return :: "'a \<Rightarrow> 'a io" where
  "io_return x = (\<lambda>w. (Inr x, w))"

definition io_raise :: "str \<Rightarrow> 'a io" where
  "io_raise e = (\<lambda>w. (Inl e, w))"

definition io_bind :: "'a io \<Rightarrow> ('a \<Rightarrow> 'b io) \<Rightarrow> 'b io" where
  "io_bind m f = (\<lambda>w. case m w of (Inl e, w') \<Rightarrow> (Inl e, w') | (Inr x, w') \<Rightarrow> f x w')"

definition io_then :: "'a io \<Rightarrow> 'b io \<Rightarrow> 'b io" where
  "io_then m n = io_bind m (\<lambda>_. n)"

text \<open>\<open>try: m except Exception as e: h e\<close>.\<close>

definition try_except :: "'a io \<Rightarrow> (str \<Rightarrow> 'a io) \<Rightarrow> 'a io" where
  "try_except m h = (\<lambda>w. case m w of (Inl e, w') \<Rightarrow> h e w' | (Inr x, w') \<Rightarrow> (Inr x, w'))"

text \<open>
  \<open>try: m finally: fin\<close>, also the exit of a \<open>with\<close> block: \<open>fin\<close> runs in both
  cases, and an exception of \<open>fin\<close> replaces the outcome of \<open>m\<close>.
\<close>

definition try_finally :: "'a io \<Rightarrow> unit io \<Rightarrow> 'a io" where
  "try_finally m fin =
     (\<lambda>w. case m w of (r, w') \<Rightarrow> (case fin w' of (Inl e, w'') \<Rightarrow> (Inl e, w'') | (Inr _, w'') \<Rightarrow> (r, w'')))"

definition record_event :: "event \<Rightarrow> unit io" where
  "record_event ev = (\<lambda>w. (Inr (), w\<lparr>trace := trace w @ [ev]\<rparr>))"

definition emit :: "signal \<Rightarrow> unit io" where
  "emit s = record_event (Emit s)"

definition logging_info :: "str \<Rightarrow> unit io" where
  "logging_info m = record_event (Logging_info m)"

definition logging_error :: "str \<Rightarrow> unit io" where
  "logging_error m = record_event (Logging_error m)"

text \<open>A call that leaves the program: it is recorded, then it raises or returns.\<close>

definition extcall :: "env \<Rightarrow> call \<Rightarrow> unit io" where
  "extcall env c =
     io_then (record_event (Called c))
       (case raises env c of Some e \<Rightarrow> io_raise e | None \<Rightarrow> io_return ())"

text \<open>A call on the file system: after the call itself, the operation may be refused.\<close>

definition fs_call :: "env \<Rightarrow> call \<Rightarrow> (node \<Rightarrow> node option) \<Rightarrow> unit io" where
  "fs_call env c f =
     io_then (extcall env c)
       (\<lambda>w. case f (fs w) of None \<Rightarrow> (Inl (oserror env c), w) | Some n \<Rightarrow> (Inr (), w\<lparr>fs := n\<rparr>))"

definition new_LLM :: "env \<Rightarrow> LLM \<Rightarrow> LLM io" where
  "new_LLM env l = io_then (extcall env (LLM_init l)) (io_return l)"

definition new_Agent :: "env \<Rightarrow> Agent \<Rightarrow> Agent io" where
  "new_Agent env a = io_then (extcall env (Agent_init a)) (io_return a)"

definition new_Task :: "env \<Rightarrow> Task \<Rightarrow> Task io" where
  "new_Task env t = io_then (extcall env (Task_init t)) (io_return t)"

definition new_Crew :: "env \<Rightarrow> Crew \<Rightarrow> Crew io" where
  "new_Crew env c = io_then (extcall env (Crew_init c)) (io_return c)"

text \<open>\<open>str(crew.kickoff())\<close>.\<close>

definition kickoff :: "env \<Rightarrow> Crew \<Rightarrow> str io" where
  "kickoff env c = io_then (extcall env (Crew_kickoff c)) (io_return (kickoff_output env c))"

text \<open>What an observer sees of a trace.\<close>

fun signals :: "event list \<Rightarrow> signal list" where
  "signals [] = []"
| "signals (Emit s # evs) = s # signals evs"
| "signals (_ # evs) = signals evs"

fun is_progress :: "signal \<Rightarrow> bool" where
  "is_progress (Progress _) = True"
| "is_progress _ = False"

fun is_finished :: "signal \<Rightarrow> bool" where
  "is_finished (Finished _) = True"
| "is_finished (Finished2 _ _) = True"
| "is_finished _ = False"

fun is_error :: "signal \<Rightarrow> bool" where
  "is_error (Error _) = True"
| "is_error _ = False"

fun is_kickoff :: "event \<Rightarrow> bool" where
  "is_kickoff (Called (Crew_kickoff _)) = True"
| "is_kickoff _ = False"

fun crews_built :: "event list \<Rightarrow> Crew list" where
  "crews_built [] = []"
| "crews_built (Called (Crew_init c) # evs) = c # crews_built evs"
| "crews_built (_ # evs) = crews_built evs"

definition start :: "node \<Rightarrow> world" where
  "start root = \<lparr>trace = [], fs = root\<rparr>"

section \<open>main_app.py: the generation worker\<close>

record PluginGenerator =
  user_request :: str

definition llm_ollama :: LLM where
  "llm_ollama = \<lparr>model = ascii ''ollama/llama3:8b'', base_url = ascii ''http://localhost:11434''\<rparr>"

definition planner_agent :: "LLM \<Rightarrow> Agent" where
  "planner_agent l =
     \<lparr>role = (ascii ''Analista de Requisitos''),
      goal = (ascii ''Analizar la petici'' @ [243] @ ascii ''n del usuario y crear un plan t'' @ [233]
              @ ascii ''cnico detallado para el plugin de QGIS''),
      backstory = (ascii ''Eres un experto analista de software especializado en QGIS y PyQGIS. \<newline>''
                   @ ascii ''                Tu trabajo es descomponer las peticiones de los usuarios en planes t''
                   @ [233] @ ascii ''cnicos espec'' @ [237] @ ascii ''ficos \<newline>''
                   @ ascii ''                que incluyan las funciones de PyQGIS necesarias, la estructura de archivos''
                   @ ascii '' del plugin \<newline>''
                   @ ascii ''                y los elementos de la interfaz de usuario.''),
      verbose = True,
      allow_delegation = False,
      llm = l\<rparr>"

definition coder_agent :: "LLM \<Rightarrow> Agent" where
  "coder_agent l =
     \<lparr>role = (ascii ''Desarrollador de QGIS''),
      goal = (ascii ''Escribir el c'' @ [243] @ ascii ''digo Python completo para el plugin de QGIS bas''
              @ [225] @ ascii ''ndose en el plan t'' @ [233] @ ascii ''cnico''),
      backstory = (ascii ''Eres un desarrollador senior especializado en PyQGIS con amplio conocimiento \<newline>''
                   @ ascii ''                de la API de QGIS, la estructura de plugins y las mejores pr'' @ [225]
                   @ ascii ''cticas de desarrollo. \<newline>''
                   @ ascii ''                Puedes generar c'' @ [243]
                   @ ascii ''digo completo y funcional para plugins de QGIS.''),
      verbose = True,
      allow_delegation = False,
      llm = l\<rparr>"

definition reviewer_agent :: "LLM \<Rightarrow> Agent" where
  "reviewer_agent l =
     \<lparr>role = (ascii ''Revisor de C'' @ [243] @ ascii ''digo y Empaquetador''),
      goal = (ascii ''Revisar el c'' @ [243]
              @ ascii ''digo generado, asegurar su calidad y empaquetarlo para despliegue''),
      backstory = (ascii ''Eres un experto en control de calidad de software y empaquetado de plugins de QGIS. \<newline>''
                   @ ascii ''                Tu trabajo es revisar el c'' @ [243]
                   @ ascii ''digo en busca de errores, asegurar que sigue las mejores pr'' @ [225]
                   @ ascii ''cticas \<newline>''
                   @ ascii ''                y crear el paquete final listo para instalaci'' @ [243] @ ascii ''n.''),
      verbose = True,
      allow_delegation = False,
      llm = l\<rparr>"

definition planning_task :: "PluginGenerator \<Rightarrow> Agent \<Rightarrow> Task" where
  "planning_task self planner =
     Task ((ascii ''Analiza la siguiente petici'' @ [243] @ ascii ''n del usuario y crea un plan t'' @ [233]
            @ ascii ''cnico detallado:\<newline>''
            @ ascii ''                \<newline>''
            @ ascii ''                PETICI'' @ [211] @ ascii ''N: '')
           @ user_request self
           @ (ascii ''\<newline>''
              @ ascii ''                \<newline>''
              @ ascii ''                Tu plan debe incluir:\<newline>''
              @ ascii ''                1. Descripci'' @ [243] @ ascii ''n funcional del plugin\<newline>''
              @ ascii ''                2. Funciones de PyQGIS necesarias\<newline>''
              @ ascii ''                3. Estructura de archivos del plugin\<newline>''
              @ ascii ''                4. Elementos de la interfaz de usuario\<newline>''
              @ ascii ''                5. Pasos espec'' @ [237] @ ascii ''ficos para el desarrollo\<newline>''
              @ ascii ''                \<newline>''
              @ ascii ''                Proporciona un plan claro y estructurado que el desarrollador pueda seguir''
              @ ascii ''.''))
          planner
          (ascii ''Un plan t'' @ [233]
           @ ascii ''cnico detallado con todos los componentes necesarios para el plugin'')
          None"

definition coding_task :: "Agent \<Rightarrow> Task \<Rightarrow> Task" where
  "coding_task coder planning =
     Task (ascii ''Bas'' @ [225] @ ascii ''ndote en el plan t'' @ [233]
           @ ascii ''cnico proporcionado, genera el c'' @ [243]
           @ ascii ''digo completo para el plugin de QGIS.\<newline>''
           @ ascii ''                \<newline>''
           @ ascii ''                Debes crear los siguientes archivos:\<newline>''
           @ ascii ''                1. metadata.txt - Metadatos del plugin\<newline>''
           @ ascii ''                2. __init__.py - Inicializaci'' @ [243] @ ascii ''n del plugin\<newline>''
           @ ascii ''                3. main_plugin.py - L'' @ [243]
           @ ascii ''gica principal del plugin\<newline>''
           @ ascii ''                4. plugin_dialog.ui - Interfaz de usuario (si es necesaria)\<newline>''
           @ ascii ''                5. resources.qrc - Recursos del plugin (si es necesario)\<newline>''
           @ ascii ''                \<newline>''
           @ ascii ''                Aseg'' @ [250] @ ascii ''rate de que el c'' @ [243]
           @ ascii ''digo:\<newline>''
           @ ascii ''                - Siga las convenciones de PyQGIS\<newline>''
           @ ascii ''                - Sea funcional y completo\<newline>''
           @ ascii ''                - Incluya manejo de errores\<newline>''
           @ ascii ''                - Tenga comentarios explicativos'')
          coder
          (ascii ''C'' @ [243] @ ascii ''digo completo del plugin con todos los archivos necesarios'')
          (Some [planning])"

definition review_task :: "Agent \<Rightarrow> Task \<Rightarrow> Task \<Rightarrow> Task" where
  "review_task reviewer planning coding =
     Task (ascii ''Revisa el c'' @ [243]
           @ ascii ''digo generado y crea el paquete final del plugin.\<newline>''
           @ ascii ''                \<newline>''
           @ ascii ''                Tareas a realizar:\<newline>''
           @ ascii ''                1. Revisar el c'' @ [243]
           @ ascii ''digo en busca de errores de sintaxis y l'' @ [243] @ ascii ''gicos\<newline>''
           @ ascii ''                2. Verificar que sigue la estructura correcta de un plugin de QGIS\<newline>''
           @ ascii ''                3. Crear una carpeta con el nombre del plugin\<newline>''
           @ ascii ''                4. Organizar todos los archivos en la carpeta\<newline>''
           @ ascii ''                5. Crear un archivo ZIP listo para instalaci'' @ [243]
           @ ascii ''n\<newline>''
           @ ascii ''                6. Proporcionar instrucciones de instalaci'' @ [243]
           @ ascii ''n\<newline>''
           @ ascii ''                \<newline>''
           @ ascii ''                Entrega el resultado final con la ruta del archivo ZIP y las instrucciones''
           @ ascii ''.'')
          reviewer
          (ascii ''Plugin empaquetado en ZIP con instrucciones de instalaci'' @ [243] @ ascii ''n'')
          (Some [planning, coding])"

definition msg_init :: str where
  "msg_init = (ascii ''Inicializando sistema multiagente...'')"

definition msg_crew :: str where
  "msg_crew = (ascii ''Creando equipo de agentes...'')"

definition msg_exec :: str where
  "msg_exec = (ascii ''Ejecutando generaci'' @ [243] @ ascii ''n del plugin...'')"

definition err_generation :: str where
  "err_generation = (ascii ''Error en la generaci'' @ [243] @ ascii ''n del plugin: '')"

text \<open>The body of the \<open>try\<close> block of \<open>PluginGenerator.run\<close>.\<close>

definition run_body :: "env \<Rightarrow> PluginGenerator \<Rightarrow> unit io" where
  "run_body env self =
     io_then (emit (Progress msg_init))
    (io_then (logging_info (ascii ''Inicializando sistema multiagente...''))
    (io_bind (new_LLM env llm_ollama) (\<lambda>l.
     io_then (logging_info (ascii ''LLM configurado con Ollama.''))
    (io_bind (new_Agent env (planner_agent l)) (\<lambda>planner.
     io_bind (new_Agent env (coder_agent l)) (\<lambda>coder.
     io_bind (new_Agent env (reviewer_agent l)) (\<lambda>reviewer.
     io_then (logging_info (ascii ''Agentes definidos.''))
    (io_bind (new_Task env (planning_task self planner)) (\<lambda>planning.
     io_bind (new_Task env (coding_task coder planning)) (\<lambda>coding.
     io_bind (new_Task env (review_task reviewer planning coding)) (\<lambda>review.
     io_then (logging_info (ascii ''Tareas definidas.''))
    (io_then (emit (Progress msg_crew))
    (io_bind (new_Crew env \<lparr>agents = [planner, coder, reviewer],
                             tasks = [planning, coding, review],
                             crew_verbose = True\<rparr>) (\<lambda>crew.
     io_then (logging_info (ascii ''Equipo de agentes creado.''))
    (io_then (emit (Progress msg_exec))
    (io_then (logging_info (ascii ''Iniciando ejecuci'' @ [243] @ ascii ''n del crew...''))
    (io_bind (kickoff env crew) (\<lambda>result.
     io_then (logging_info (ascii ''Ejecuci'' @ [243] @ ascii ''n del crew finalizada.''))
             (emit (Finished result))))))))))))))))))))"

text \<open>\<open>PluginGenerator.run\<close>: the body under its single \<open>except Exception\<close> handler.\<close>

definition run :: "env \<Rightarrow> PluginGenerator \<Rightarrow> unit io" where
  "run env self =
     try_except (run_body env self)
       (\<lambda>e. io_then (logging_error (err_generation @ e))
                     (emit (Error (err_generation @ e))))"

section \<open>main_app_mejorado.py: the generation worker and the packaging step\<close>

text \<open>
  The module-level flags set by the guarded imports. A definition of the improved program
  carries the suffix \<open>_v2\<close> where main_app.py has a definition of the same name.
\<close>

record flags =
  AUDIO_AVAILABLE :: bool
  CREWAI_AVAILABLE :: bool

record PluginGenerator_v2 = PluginGenerator +
  plugin_config :: config

text \<open>\<open>__init__\<close>: \<open>self.plugin_config = plugin_config or {}\<close>.\<close>

definition PluginGenerator_v2_init :: "str \<Rightarrow> config option \<Rightarrow> PluginGenerator_v2" where
  "PluginGenerator_v2_init request cfg =
     \<lparr>user_request = request,
      plugin_config = (case cfg of None \<Rightarrow> [] | Some d \<Rightarrow> if d = [] then [] else d)\<rparr>"

definition planner_agent_v2 :: "LLM \<Rightarrow> Agent" where
  "planner_agent_v2 l =
     \<lparr>role = (ascii ''Analista de Requisitos para QGIS''),
      goal = (ascii ''Analizar peticiones de usuarios y crear planes t'' @ [233]
              @ ascii ''cnicos detallados para plugins de QGIS''),
      backstory = (ascii ''Eres un experto analista de software especializado en QGIS y PyQGIS con m'' @ [225]
                   @ ascii ''s de 10 a'' @ [241] @ ascii ''os de experiencia. \<newline>''
                   @ ascii ''                Conoces profundamente la API de QGIS, las mejores pr'' @ [225]
                   @ ascii ''cticas de desarrollo de plugins y las necesidades comunes de los usuarios de SIG.\<newline>''
                   @ ascii ''                Tu trabajo es descomponer las peticiones de los usuarios en planes t''
                   @ [233] @ ascii ''cnicos espec'' @ [237] @ ascii ''ficos y factibles.''),
      verbose = True,
      allow_delegation = False,
      llm = l\<rparr>"

definition coder_agent_v2 :: "LLM \<Rightarrow> Agent" where
  "coder_agent_v2 l =
     \<lparr>role = (ascii ''Desarrollador Senior de PyQGIS''),
      goal = (ascii ''Escribir c'' @ [243] @ ascii ''digo Python completo y funcional para plugins de QGIS''),
      backstory = (ascii ''Eres un desarrollador senior con experiencia extensa en PyQGIS, Qt, y desarrollo de plugin''
                   @ ascii ''s para QGIS.\<newline>''
                   @ ascii ''                Conoces las mejores pr'' @ [225] @ ascii ''cticas de programaci'' @ [243]
                   @ ascii ''n, manejo de errores, y optimizaci'' @ [243] @ ascii ''n de rendimiento.\<newline>''
                   @ ascii ''                Puedes generar c'' @ [243]
                   @ ascii ''digo limpio, bien documentado y siguiendo los est'' @ [225]
                   @ ascii ''ndares de la comunidad QGIS.''),
      verbose = True,
      allow_delegation = False,
      llm = l\<rparr>"

definition reviewer_agent_v2 :: "LLM \<Rightarrow> Agent" where
  "reviewer_agent_v2 l =
     \<lparr>role = (ascii ''Revisor de C'' @ [243] @ ascii ''digo y Especialista en Empaquetado''),
      goal = (ascii ''Revisar c'' @ [243] @ ascii ''digo, asegurar calidad y crear paquetes de distribuci''
              @ [243] @ ascii ''n''),
      backstory = (ascii ''Eres un experto en control de calidad de software y empaquetado de plugins de QGIS.\<newline>''
                   @ ascii ''                Tu experiencia incluye testing, debugging, y distribuci'' @ [243]
                   @ ascii ''n de software.\<newline>''
                   @ ascii ''                Aseguras que el c'' @ [243] @ ascii ''digo sea robusto, seguro y f''
                   @ [225] @ ascii ''cil de instalar.''),
      verbose = True,
      allow_delegation = False,
      llm = l\<rparr>"

definition planning_task_v2 :: "env \<Rightarrow> PluginGenerator_v2 \<Rightarrow> Agent \<Rightarrow> Task" where
  "planning_task_v2 env self planner =
     Task ((ascii ''Analiza la siguiente petici'' @ [243] @ ascii ''n del usuario y crea un plan t'' @ [233]
            @ ascii ''cnico detallado para un plugin de QGIS:\<newline>''
            @ ascii ''                \<newline>''
            @ ascii ''                PETICI'' @ [211] @ ascii ''N DEL USUARIO: '')
           @ user_request self
           @ (ascii ''\<newline>''
              @ ascii ''                \<newline>''
              @ ascii ''                CONFIGURACI'' @ [211] @ ascii ''N ADICIONAL: '')
           @ str_of_config env (plugin_config self)
           @ (ascii ''\<newline>''
              @ ascii ''                \<newline>''
              @ ascii ''                Tu plan debe incluir:\<newline>''
              @ ascii ''                1. An'' @ [225]
              @ ascii ''lisis funcional del plugin solicitado\<newline>''
              @ ascii ''                2. Identificaci'' @ [243] @ ascii ''n de las clases y m'' @ [233]
              @ ascii ''todos de PyQGIS necesarios\<newline>''
              @ ascii ''                3. Estructura de archivos del plugin (metadata.txt, __init__.py, main_plug''
              @ ascii ''in.py, etc.)\<newline>''
              @ ascii ''                4. Dise'' @ [241] @ ascii ''o de la interfaz de usuario (botones, men''
              @ [250] @ ascii ''s, di'' @ [225] @ ascii ''logos)\<newline>''
              @ ascii ''                5. Flujo de trabajo y l'' @ [243]
              @ ascii ''gica de procesamiento\<newline>''
              @ ascii ''                6. Manejo de errores y validaciones necesarias\<newline>''
              @ ascii ''                7. Consideraciones de rendimiento y optimizaci'' @ [243]
              @ ascii ''n\<newline>''
              @ ascii ''                \<newline>''
              @ ascii ''                Proporciona un plan estructurado y detallado que sirva como gu'' @ [237]
              @ ascii ''a completa para el desarrollo.''))
          planner
          (ascii ''Un plan t'' @ [233]
           @ ascii ''cnico completo y detallado con todos los componentes necesarios para el plugin'')
          None"

definition coding_task_v2 :: "Agent \<Rightarrow> Task \<Rightarrow> Task" where
  "coding_task_v2 coder planning =
     Task (ascii ''Bas'' @ [225] @ ascii ''ndote en el plan t'' @ [233]
           @ ascii ''cnico proporcionado, genera el c'' @ [243]
           @ ascii ''digo completo para el plugin de QGIS.\<newline>''
           @ ascii ''                \<newline>''
           @ ascii ''                Debes crear los siguientes archivos con c'' @ [243]
           @ ascii ''digo funcional:\<newline>''
           @ ascii ''                \<newline>''
           @ ascii ''                1. **metadata.txt** - Metadatos del plugin con informaci'' @ [243]
           @ ascii ''n completa\<newline>''
           @ ascii ''                2. **__init__.py** - Inicializaci'' @ [243]
           @ ascii ''n del plugin\<newline>''
           @ ascii ''                3. **main_plugin.py** - Clase principal del plugin con toda la l'' @ [243]
           @ ascii ''gica\<newline>''
           @ ascii ''                4. **plugin_dialog.py** - Di'' @ [225]
           @ ascii ''logo de la interfaz de usuario (si es necesario)\<newline>''
           @ ascii ''                5. **plugin_dialog.ui** - Archivo de interfaz Qt Designer (si es necesario''
           @ ascii '')\<newline>''
           @ ascii ''                6. **resources.qrc** - Archivo de recursos (si es necesario)\<newline>''
           @ ascii ''                7. **icon.png** - Descripci'' @ [243]
           @ ascii ''n del icono necesario\<newline>''
           @ ascii ''                \<newline>''
           @ ascii ''                Requisitos del c'' @ [243] @ ascii ''digo:\<newline>''
           @ ascii ''                - Debe seguir las convenciones de PyQGIS y PEP 8\<newline>''
           @ ascii ''                - Incluir manejo robusto de errores\<newline>''
           @ ascii ''                - Comentarios explicativos en espa'' @ [241] @ ascii ''ol\<newline>''
           @ ascii ''                - Validaci'' @ [243] @ ascii ''n de entrada de datos\<newline>''
           @ ascii ''                - Compatibilidad con QGIS 3.x\<newline>''
           @ ascii ''                - C'' @ [243] @ ascii ''digo modular y mantenible\<newline>''
           @ ascii ''                \<newline>''
           @ ascii ''                Aseg'' @ [250] @ ascii ''rate de que el c'' @ [243]
           @ ascii ''digo sea completo y funcional.'')
          coder
          (ascii ''C'' @ [243]
           @ ascii ''digo completo del plugin con todos los archivos necesarios y funcionalidad implementada'')
          (Some [planning])"

definition review_task_v2 :: "Agent \<Rightarrow> Task \<Rightarrow> Task \<Rightarrow> Task" where
  "review_task_v2 reviewer planning coding =
     Task (ascii ''Revisa el c'' @ [243] @ ascii ''digo generado, mej'' @ [243]
           @ ascii ''ralo si es necesario y crea el paquete final del plugin.\<newline>''
           @ ascii ''                \<newline>''
           @ ascii ''                Tareas de revisi'' @ [243] @ ascii ''n:\<newline>''
           @ ascii ''                1. Revisar sintaxis y l'' @ [243] @ ascii ''gica del c'' @ [243]
           @ ascii ''digo\<newline>''
           @ ascii ''                2. Verificar compatibilidad con QGIS 3.x\<newline>''
           @ ascii ''                3. Validar estructura del plugin\<newline>''
           @ ascii ''                4. Mejorar comentarios y documentaci'' @ [243] @ ascii ''n\<newline>''
           @ ascii ''                5. Optimizar rendimiento si es posible\<newline>''
           @ ascii ''                \<newline>''
           @ ascii ''                Tareas de empaquetado:\<newline>''
           @ ascii ''                1. Crear carpeta del plugin con nombre apropiado\<newline>''
           @ ascii ''                2. Organizar todos los archivos correctamente\<newline>''
           @ ascii ''                3. Crear archivo ZIP para instalaci'' @ [243] @ ascii ''n\<newline>''
           @ ascii ''                4. Generar instrucciones de instalaci'' @ [243]
           @ ascii ''n detalladas\<newline>''
           @ ascii ''                5. Crear documentaci'' @ [243] @ ascii ''n de uso del plugin\<newline>''
           @ ascii ''                \<newline>''
           @ ascii ''                Proporciona el resultado final con la estructura completa del plugin.'')
          reviewer
          (ascii ''Plugin revisado, empaquetado en ZIP con instrucciones completas de instalaci'' @ [243]
           @ ascii ''n y uso'')
          (Some [planning, coding])"

definition err_crewai :: str where
  "err_crewai = (ascii ''CrewAI no est'' @ [225] @ ascii '' disponible. Instala crewai.'')"

definition err_ollama :: str where
  "err_ollama = (ascii ''Error conectando con Ollama: '')"

definition err_package :: str where
  "err_package = (ascii ''Error creando paquete: '')"

subsection \<open>create_plugin_package\<close>

definition tempfile_mkdtemp :: "env \<Rightarrow> str io" where
  "tempfile_mkdtemp env =
     io_then (fs_call env Tempfile_mkdtemp
                (\<lambda>n. mkdir n (resolve (getcwd env) (mkdtemp_path env))))
             (io_return (mkdtemp_path env))"

definition os_makedirs :: "env \<Rightarrow> str \<Rightarrow> unit io" where
  "os_makedirs env path =
     fs_call env (Os_makedirs path) (\<lambda>n. makedirs n (resolve (getcwd env) path))"

text \<open>
  \<open>with open(path, "w", encoding="utf-8") as f: f.write(text)\<close>: opening creates or
  truncates the file, writing encodes the text.
\<close>

definition write_text :: "env \<Rightarrow> str \<Rightarrow> str \<Rightarrow> unit io" where
  "write_text env path text =
     io_then (fs_call env (Open_w path)
                (\<lambda>n. put_file n (resolve (getcwd env) path) (Text [])))
             (fs_call env (File_write path text)
                (\<lambda>n. if utf8_encodable text
                      then put_file n (resolve (getcwd env) path) (Text text) else None))"

definition os_getcwd :: "env \<Rightarrow> str io" where
  "os_getcwd env = io_then (extcall env Os_getcwd) (io_return (getcwd env))"

definition zipfile_open :: "env \<Rightarrow> str \<Rightarrow> unit io" where
  "zipfile_open env zip_path =
     fs_call env (ZipFile_open zip_path)
       (\<lambda>n. put_file n (resolve (getcwd env) zip_path) (Zip []))"

text \<open>\<open>zipf.write(file_path, arcname)\<close>: the file is read and appended as a member.\<close>

definition zip_add :: "node \<Rightarrow> str list \<Rightarrow> str list \<Rightarrow> str \<Rightarrow> node option" where
  "zip_add n z f arcname =
     (case lookup n f of
        Some (File c) \<Rightarrow>
          (case lookup n z of
             Some (File (Zip members)) \<Rightarrow> put_file n z (Zip (members @ [(arcname, c)]))
           | _ \<Rightarrow> None)
      | _ \<Rightarrow> None)"

definition zipfile_write :: "env \<Rightarrow> str \<Rightarrow> str \<Rightarrow> str \<Rightarrow> unit io" where
  "zipfile_write env zip_path file_path arcname =
     fs_call env (ZipFile_write file_path arcname)
       (\<lambda>n. zip_add n (resolve (getcwd env) zip_path) (resolve (getcwd env) file_path) arcname)"

definition zipfile_close :: "env \<Rightarrow> str \<Rightarrow> unit io" where
  "zipfile_close env zip_path = extcall env (ZipFile_close zip_path)"

definition os_walk :: "env \<Rightarrow> str \<Rightarrow> (str \<times> str list \<times> str list) list io" where
  "os_walk env topdir =
     (\<lambda>w. (Inr (case lookup (fs w) (resolve (getcwd env) topdir) of
                   None \<Rightarrow> [] | Some n \<Rightarrow> walk topdir n), w))"

definition shutil_rmtree :: "env \<Rightarrow> str \<Rightarrow> unit io" where
  "shutil_rmtree env path =
     fs_call env (Shutil_rmtree path) (\<lambda>n. rmtree n (resolve (getcwd env) path))"

fun for_each :: "'a list \<Rightarrow> ('a \<Rightarrow> unit io) \<Rightarrow> unit io" where
  "for_each [] f = io_return ()"
| "for_each (x # xs) f = io_then (f x) (for_each xs f)"

text \<open>The body of the \<open>try\<close> block of \<open>create_plugin_package\<close>.\<close>

definition create_plugin_package_body :: "env \<Rightarrow> str \<Rightarrow> str io" where
  "create_plugin_package_body env result_text =
     (let timestamp = strftime_Ymd_HMS (now env);
          plugin_name = (ascii ''qgis_plugin_'') @ timestamp
      in io_bind (tempfile_mkdtemp env) (\<lambda>temp_dir.
         let plugin_dir = os_path_join temp_dir plugin_name
         in io_then (os_makedirs env plugin_dir)
           (io_then (write_text env (os_path_join plugin_dir (ascii ''resultado.txt'')) result_text)
           (io_bind (os_getcwd env) (\<lambda>cwd.
            let zip_path = os_path_join cwd (plugin_name @ (ascii ''.zip''))
            in io_then (zipfile_open env zip_path)
              (io_then (try_finally
                          (io_bind (os_walk env plugin_dir) (\<lambda>triples.
                           for_each triples (\<lambda>(root, dirs, files).
                           for_each files (\<lambda>file.
                             let file_path = os_path_join root file;
                                 arcname = os_path_relpath (getcwd env) file_path temp_dir
                             in zipfile_write env zip_path file_path arcname))))
                          (zipfile_close env zip_path))
              (io_then (shutil_rmtree env temp_dir)
                       (io_return zip_path))))))))"

text \<open>
  \<open>create_plugin_package\<close>: the path of the archive, or \<open>None\<close> after logging when the
  body raised.
\<close>

definition create_plugin_package :: "env \<Rightarrow> str \<Rightarrow> str option io" where
  "create_plugin_package env result_text =
     try_except (io_bind (create_plugin_package_body env result_text) (\<lambda>p. io_return (Some p)))
       (\<lambda>e. io_then (logging_error (err_package @ e)) (io_return None))"

subsection \<open>PluginGenerator.run\<close>

text \<open>\<open>self.finished.emit(text, zip_path)\<close> on the signal declared \<open>pyqtSignal(str, str)\<close>.\<close>

definition emit_finished2 :: "env \<Rightarrow> str \<Rightarrow> str option \<Rightarrow> unit io" where
  "emit_finished2 env text zip_path =
     (case zip_path of
        Some p \<Rightarrow> emit (Finished2 text (Some p))
      | None \<Rightarrow> (case emit_none_error env of
                   Some m \<Rightarrow> io_raise m
                 | None \<Rightarrow> emit (Finished2 text None)))"

text \<open>
  What follows the construction of the language model in the outer \<open>try\<close> block.
\<close>

definition run_rest_v2 :: "env \<Rightarrow> PluginGenerator_v2 \<Rightarrow> LLM \<Rightarrow> unit io" where
  "run_rest_v2 env self l =
     io_bind (new_Agent env (planner_agent_v2 l)) (\<lambda>planner.
     io_bind (new_Agent env (coder_agent_v2 l)) (\<lambda>coder.
     io_bind (new_Agent env (reviewer_agent_v2 l)) (\<lambda>reviewer.
     io_bind (new_Task env (planning_task_v2 env self planner)) (\<lambda>planning.
     io_bind (new_Task env (coding_task_v2 coder planning)) (\<lambda>coding.
     io_bind (new_Task env (review_task_v2 reviewer planning coding)) (\<lambda>review.
     io_then (emit (Progress msg_crew))
    (io_bind (new_Crew env \<lparr>agents = [planner, coder, reviewer],
                             tasks = [planning, coding, review],
                             crew_verbose = True\<rparr>) (\<lambda>crew.
     io_then (emit (Progress msg_exec))
    (io_then (logging_info (ascii ''Iniciando ejecuci'' @ [243] @ ascii ''n del crew...''))
    (io_bind (kickoff env crew) (\<lambda>result.
     io_bind (create_plugin_package env result) (\<lambda>zip_path.
     emit_finished2 env result zip_path))))))))))))"

text \<open>
  The outer \<open>try\<close> block. The inner \<open>try\<close> around the construction of the language model
  reports and returns from \<open>run\<close>: the rest is skipped.
\<close>

definition run_body_v2 :: "env \<Rightarrow> PluginGenerator_v2 \<Rightarrow> unit io" where
  "run_body_v2 env self =
     io_then (emit (Progress msg_init))
    (io_then (logging_info (ascii ''Inicializando sistema multiagente...''))
    (io_bind (try_except
                (io_bind (new_LLM env llm_ollama) (\<lambda>l.
                 io_then (logging_info (ascii ''LLM configurado con Ollama.'')) (io_return (Some l))))
                (\<lambda>e. io_then (emit (Error (err_ollama @ e))) (io_return None)))
       (\<lambda>r. case r of None \<Rightarrow> io_return () | Some l \<Rightarrow> run_rest_v2 env self l)))"

definition run_v2 :: "flags \<Rightarrow> env \<Rightarrow> PluginGenerator_v2 \<Rightarrow> unit io" where
  "run_v2 flags env self =
     (if \<not> CREWAI_AVAILABLE flags then emit (Error err_crewai)
      else try_except (run_body_v2 env self)
             (\<lambda>e. io_then (logging_error (err_generation @ e))
                           (emit (Error (err_generation @ e)))))"

section \<open>Events without a signal\<close>

text \<open>
  The events of the packaging step: calls on the file system and log entries. A computation
  is \<open>quiet\<close> when it only appends such events to the trace.
\<close>

fun quiet_event :: "event \<Rightarrow> bool" where
  "quiet_event (Emit _) = False"
| "quiet_event (Logging_info _) = True"
| "quiet_event (Logging_error _) = True"
| "quiet_event (Called (LLM_init _)) = False"
| "quiet_event (Called (Agent_init _)) = False"
| "quiet_event (Called (Task_init _)) = False"
| "quiet_event (Called (Crew_init _)) = False"
| "quiet_event (Called (Crew_kickoff _)) = False"
| "quiet_event (Called _) = True"

definition quiet :: "'a io \<Rightarrow> bool" where
  "quiet m \<longleftrightarrow> (\<forall>w. \<exists>evs. trace (snd (m w)) = trace w @ evs \<and> list_all quiet_event evs)"

section \<open>The crew a run builds\<close>

text \<open>
  The arguments of the one \<open>Crew(...)\<close> call of each program, written out: the three agents
  share the language model, and each task holds the tasks of its context.
\<close>

definition the_crew :: "PluginGenerator \<Rightarrow> Crew" where
  "the_crew self =
     (let planner = planner_agent llm_ollama;
          coder = coder_agent llm_ollama;
          reviewer = reviewer_agent llm_ollama;
          planning = planning_task self planner;
          coding = coding_task coder planning;
          review = review_task reviewer planning coding
      in \<lparr>agents = [planner, coder, reviewer],
          tasks = [planning, coding, review],
          crew_verbose = True\<rparr>)"

definition the_crew_v2 :: "env \<Rightarrow> PluginGenerator_v2 \<Rightarrow> Crew" where
  "the_crew_v2 env self =
     (let planner = planner_agent_v2 llm_ollama;
          coder = coder_agent_v2 llm_ollama;
          reviewer = reviewer_agent_v2 llm_ollama;
          planning = planning_task_v2 env self planner;
          coding = coding_task_v2 coder planning;
          review = review_task_v2 reviewer planning coding
      in \<lparr>agents = [planner, coder, reviewer],
          tasks = [planning, coding, review],
          crew_verbose = True\<rparr>)"

text \<open>The constructors of the framework, as opposed to \<open>kickoff\<close> and the file system.\<close>

fun is_ctor :: "call \<Rightarrow> bool" where
  "is_ctor (LLM_init _) = True"
| "is_ctor (Agent_init _) = True"
| "is_ctor (Task_init _) = True"
| "is_ctor (Crew_init _) = True"
| "is_ctor _ = False"

definition all_progress :: "signal list" where
  "all_progress = [Progress msg_init, Progress msg_crew, Progress msg_exec]"

section \<open>Example inputs\<close>

text \<open>
  An environment in which no call raises, on a file system with a temporary directory and
  a working directory; a request; and variations in which one call raises.
\<close>

definition env0 :: env where
  "env0 =
     \<lparr>raises = (\<lambda>_. None),
      oserror = (\<lambda>_. ascii ''OSError''),
      kickoff_output = (\<lambda>_. ascii ''plugin code''),
      now = \<lparr>year = 2025, month = 3, day = 9, hour = 14, minute = 5, second = 7\<rparr>,
      mkdtemp_path = ascii ''/tmp/tmpx'',
      getcwd = ascii ''/home/u'',
      str_of_config = (\<lambda>_. ascii ''{}''),
      emit_none_error = Some (ascii ''argument 2 has unexpected type NoneType'')\<rparr>"

definition fs0 :: node where
  "fs0 = Dir [(ascii ''tmp'', Dir []), (ascii ''home'', Dir [(ascii ''u'', Dir [])])]"

definition request0 :: PluginGenerator where
  "request0 = \<lparr>user_request = ascii ''buffer de 100 metros''\<rparr>"

definition request0_v2 :: PluginGenerator_v2 where
  "request0_v2 = PluginGenerator_v2_init (ascii ''buffer de 100 metros'') None"

definition all_available :: flags where
  "all_available = \<lparr>AUDIO_AVAILABLE = True, CREWAI_AVAILABLE = True\<rparr>"

definition raising :: "(call \<Rightarrow> bool) \<Rightarrow> str \<Rightarrow> env \<Rightarrow> env" where
  "raising P e env = env\<lparr>raises := (\<lambda>c. if P c then Some e else raises env c)\<rparr>"

section \<open>Symbolic execution\<close>

lemmas io_defs = io_return_def io_raise_def io_bind_def io_then_def try_except_def
  record_event_def emit_def logging_info_def logging_error_def extcall_def
  new_LLM_def new_Agent_def new_Task_def new_Crew_def kickoff_def

lemma signals_append: "signals (xs @ ys) = signals xs @ signals ys"
  by (induction xs rule: signals.induct) auto

lemma crews_built_append: "crews_built (xs @ ys) = crews_built xs @ crews_built ys"
  by (induction xs rule: crews_built.induct) auto

lemma quiet_signals: "list_all quiet_event evs \<Longrightarrow> signals evs = []"
  by (induction evs rule: signals.induct) auto

lemma quiet_crews_built: "list_all quiet_event evs \<Longrightarrow> crews_built evs = []"
  by (induction evs rule: crews_built.induct) auto

lemma quiet_kickoff: "list_all quiet_event evs \<Longrightarrow> filter is_kickoff evs = []"
proof (induction evs)
  case Nil
  then show ?case by simp
next
  case (Cons ev evs)
  then show ?case by (cases ev rule: is_kickoff.cases) auto
qed

lemma quietI:
  assumes "\<And>w. \<exists>evs. trace (snd (m w)) = trace w @ evs \<and> list_all quiet_event evs"
  shows "quiet m"
  using assms by (simp add: quiet_def)

lemma quietD:
  assumes "quiet m"
  obtains evs where "trace (snd (m w)) = trace w @ evs" and "list_all quiet_event evs"
  using assms unfolding quiet_def by blast

lemma quiet_return: "quiet (io_return x)"
  by (simp add: quiet_def io_return_def)

lemma quiet_raise: "quiet (io_raise e)"
  by (simp add: quiet_def io_raise_def)

lemma quiet_bind:
  assumes m: "quiet m" and f: "\<And>x. quiet (f x)"
  shows "quiet (io_bind m f)"
proof (rule quietI)
  fix w
  obtain r w1 where mw: "m w = (r, w1)" by (cases "m w")
  obtain evs where e1: "trace w1 = trace w @ evs" and q1: "list_all quiet_event evs"
    using quietD [OF m, of w] mw by auto
  show "\<exists>evs. trace (snd (io_bind m f w)) = trace w @ evs \<and> list_all quiet_event evs"
  proof (cases r)
    case (Inl e)
    then show ?thesis using mw e1 q1 by (auto simp: io_bind_def)
  next
    case (Inr x)
    obtain evs2 where e2: "trace (snd (f x w1)) = trace w1 @ evs2" and q2: "list_all quiet_event evs2"
      using quietD [OF f, of x w1] by auto
    have "trace (snd (io_bind m f w)) = trace w @ (evs @ evs2)"
      using Inr mw e1 e2 by (simp add: io_bind_def)
    then show ?thesis using q1 q2 by (metis list_all_append)
  qed
qed

lemma quiet_then: "quiet m \<Longrightarrow> quiet n \<Longrightarrow> quiet (io_then m n)"
  by (simp add: io_then_def quiet_bind)

lemma quiet_try_except:
  assumes m: "quiet m" and h: "\<And>e. quiet (h e)"
  shows "quiet (try_except m h)"
proof (rule quietI)
  fix w
  obtain r w1 where mw: "m w = (r, w1)" by (cases "m w")
  obtain evs where e1: "trace w1 = trace w @ evs" and q1: "list_all quiet_event evs"
    using quietD [OF m, of w] mw by auto
  show "\<exists>evs. trace (snd (try_except m h w)) = trace w @ evs \<and> list_all quiet_event evs"
  proof (cases r)
    case (Inr x)
    then show ?thesis using mw e1 q1 by (auto simp: try_except_def)
  next
    case (Inl e)
    obtain evs2 where e2: "trace (snd (h e w1)) = trace w1 @ evs2" and q2: "list_all quiet_event evs2"
      using quietD [OF h, of e w1] by auto
    have "trace (snd (try_except m h w)) = trace w @ (evs @ evs2)"
      using Inl mw e1 e2 by (simp add: try_except_def)
    then show ?thesis using q1 q2 by (metis list_all_append)
  qed
qed

lemma quiet_try_finally:
  assumes m: "quiet m" and n: "quiet n"
  shows "quiet (try_finally m n)"
proof (rule quietI)
  fix w
  obtain r w1 where mw: "m w = (r, w1)" by (cases "m w")
  obtain evs where e1: "trace w1 = trace w @ evs" and q1: "list_all quiet_event evs"
    using quietD [OF m, of w] mw by auto
  obtain r2 w2 where nw: "n w1 = (r2, w2)" by (cases "n w1")
  obtain evs2 where e2: "trace w2 = trace w1 @ evs2" and q2: "list_all quiet_event evs2"
    using quietD [OF n, of w1] nw by auto
  have "trace (snd (try_finally m n w)) = trace w @ (evs @ evs2)"
    using mw nw e1 e2 by (cases r2) (simp_all add: try_finally_def)
  then show "\<exists>evs. trace (snd (try_finally m n w)) = trace w @ evs \<and> list_all quiet_event evs"
    using q1 q2 by (metis list_all_append)
qed

lemma quiet_record_event: "quiet_event ev \<Longrightarrow> quiet (record_event ev)"
  by (simp add: quiet_def record_event_def)

lemma quiet_extcall: "quiet_event (Called c) \<Longrightarrow> quiet (extcall env c)"
  unfolding extcall_def
  by (intro quiet_then quiet_record_event) (auto simp: quiet_return quiet_raise split: option.splits)

lemma quiet_fs_step:
  "quiet (\<lambda>w. case f (fs w) of None \<Rightarrow> (Inl e, w) | Some n \<Rightarrow> (Inr (), w\<lparr>fs := n\<rparr>))"
  by (rule quietI) (auto split: option.splits)

lemma quiet_fs_call: "quiet_event (Called c) \<Longrightarrow> quiet (fs_call env c f)"
  unfolding fs_call_def by (intro quiet_then quiet_extcall quiet_fs_step)

lemma quiet_for_each: "(\<And>x. quiet (f x)) \<Longrightarrow> quiet (for_each xs f)"
  by (induction xs) (simp_all add: quiet_return quiet_then)

lemma quiet_os_walk: "quiet (os_walk env p)"
  by (rule quietI) (simp add: os_walk_def)

lemma quiet_create_plugin_package_body: "quiet (create_plugin_package_body env result_text)"
  unfolding create_plugin_package_body_def Let_def tempfile_mkdtemp_def os_makedirs_def
    write_text_def os_getcwd_def zipfile_open_def zipfile_write_def zipfile_close_def
    shutil_rmtree_def
  by (intro quiet_bind quiet_then quiet_try_finally quiet_for_each quiet_fs_call
        quiet_extcall quiet_return quiet_os_walk allI) (simp_all add: quiet_for_each quiet_fs_call split: prod.splits)

lemma quiet_create_plugin_package: "quiet (create_plugin_package env result_text)"
  unfolding create_plugin_package_def logging_error_def
  by (intro quiet_try_except quiet_bind quiet_then quiet_return quiet_record_event
        quiet_create_plugin_package_body) simp

lemma create_plugin_package_returns:
  "\<exists>r w'. create_plugin_package env result_text w = (Inr r, w')"
  unfolding create_plugin_package_def
  by (cases "create_plugin_package_body env result_text w")
     (auto simp: io_defs split: sum.splits)

lemma create_plugin_package_effect:
  assumes "create_plugin_package env result_text w = (r, w')"
  obtains zp evs where "r = Inr zp" and "trace w' = trace w @ evs" and "list_all quiet_event evs"
proof -
  obtain evs where "trace w' = trace w @ evs" and "list_all quiet_event evs"
    using quietD [OF quiet_create_plugin_package, of env result_text w] assms by auto
  moreover obtain zp where "r = Inr zp"
    using create_plugin_package_returns [of env result_text w] assms by auto
  ultimately show thesis using that by blast
qed

lemma kickoffs_append:
  "filter is_kickoff (xs @ ys) = filter is_kickoff xs @ filter is_kickoff ys"
  by simp

lemmas obs_append = signals_append crews_built_append

text \<open>Among calls made in sequence, the first one that raises, if any.\<close>

lemma first_failure:
  fixes ca cb cc cd ce cf cg ch :: "'a option"
  obtains (f1) e where "ca = Some e"
    | (f2) e where "ca = None" "cb = Some e"
    | (f3) e where "ca = None" "cb = None" "cc = Some e"
    | (f4) e where "ca = None" "cb = None" "cc = None" "cd = Some e"
    | (f5) e where "ca = None" "cb = None" "cc = None" "cd = None" "ce = Some e"
    | (f6) e where "ca = None" "cb = None" "cc = None" "cd = None" "ce = None" "cf = Some e"
    | (f7) e where "ca = None" "cb = None" "cc = None" "cd = None" "ce = None" "cf = None" "cg = Some e"
    | (f8) e where "ca = None" "cb = None" "cc = None" "cd = None" "ce = None" "cf = None" "cg = None" "ch = Some e"
    | (ok) "ca = None" "cb = None" "cc = None" "cd = None" "ce = None" "cf = None" "cg = None" "ch = None"
proof (cases ca)
  case (Some e)
  then show ?thesis by (rule f1)
next
  case n1: None
  show ?thesis
  proof (cases cb)
    case (Some e)
    with n1 show ?thesis by (rule f2)
  next
    case n2: None
    show ?thesis
    proof (cases cc)
      case (Some e)
      with n1 n2 show ?thesis by (rule f3)
    next
      case n3: None
      show ?thesis
      proof (cases cd)
        case (Some e)
        with n1 n2 n3 show ?thesis by (rule f4)
      next
        case n4: None
        show ?thesis
        proof (cases ce)
          case (Some e)
          with n1 n2 n3 n4 show ?thesis by (rule f5)
        next
          case n5: None
          show ?thesis
          proof (cases cf)
            case (Some e)
            with n1 n2 n3 n4 n5 show ?thesis by (rule f6)
          next
            case n6: None
            show ?thesis
            proof (cases cg)
              case (Some e)
              with n1 n2 n3 n4 n5 n6 show ?thesis by (rule f7)
            next
              case n7: None
              show ?thesis
              proof (cases ch)
                case (Some e)
                with n1 n2 n3 n4 n5 n6 n7 show ?thesis by (rule f8)
              next
                case n8: None
                from n1 n2 n3 n4 n5 n6 n7 n8 show ?thesis by (rule ok)
              qed
            qed
          qed
        qed
      qed
    qed
  qed
qed

section \<open>Executing a worker step by step\<close>

lemma then_record_event [simp]:
  "io_then (record_event ev) n w = n (w\<lparr>trace := trace w @ [ev]\<rparr>)"
  by (simp add: io_then_def io_bind_def record_event_def)

lemma then_emit [simp]: "io_then (emit s) n w = n (w\<lparr>trace := trace w @ [Emit s]\<rparr>)"
  by (simp add: emit_def)

lemma then_logging_info [simp]:
  "io_then (logging_info m) n w = n (w\<lparr>trace := trace w @ [Logging_info m]\<rparr>)"
  by (simp add: logging_info_def)

lemma then_logging_error [simp]:
  "io_then (logging_error m) n w = n (w\<lparr>trace := trace w @ [Logging_error m]\<rparr>)"
  by (simp add: logging_error_def)

lemma emit_apply [simp]: "emit s w = (Inr (), w\<lparr>trace := trace w @ [Emit s]\<rparr>)"
  by (simp add: emit_def record_event_def)

lemma io_return_apply [simp]: "io_return x w = (Inr x, w)"
  by (simp add: io_return_def)

lemma io_raise_apply [simp]: "io_raise e w = (Inl e, w)"
  by (simp add: io_raise_def)

lemma extcall_ok:
  "raises env c = None \<Longrightarrow> extcall env c w = (Inr (), w\<lparr>trace := trace w @ [Called c]\<rparr>)"
  by (simp add: extcall_def)

lemma extcall_raises:
  "raises env c = Some e \<Longrightarrow> extcall env c w = (Inl e, w\<lparr>trace := trace w @ [Called c]\<rparr>)"
  by (simp add: extcall_def)

lemma bind_new_LLM_ok:
  "raises env (LLM_init l) = None \<Longrightarrow>
   io_bind (new_LLM env l) f w = f l (w\<lparr>trace := trace w @ [Called (LLM_init l)]\<rparr>)"
  by (simp add: new_LLM_def io_bind_def io_then_def extcall_ok)

lemma bind_new_LLM_raises:
  "raises env (LLM_init l) = Some e \<Longrightarrow>
   io_bind (new_LLM env l) f w = (Inl e, w\<lparr>trace := trace w @ [Called (LLM_init l)]\<rparr>)"
  by (simp add: new_LLM_def io_bind_def io_then_def extcall_raises)

lemma bind_new_Agent_ok:
  "raises env (Agent_init a) = None \<Longrightarrow>
   io_bind (new_Agent env a) f w = f a (w\<lparr>trace := trace w @ [Called (Agent_init a)]\<rparr>)"
  by (simp add: new_Agent_def io_bind_def io_then_def extcall_ok)

lemma bind_new_Agent_raises:
  "raises env (Agent_init a) = Some e \<Longrightarrow>
   io_bind (new_Agent env a) f w = (Inl e, w\<lparr>trace := trace w @ [Called (Agent_init a)]\<rparr>)"
  by (simp add: new_Agent_def io_bind_def io_then_def extcall_raises)

lemma bind_new_Task_ok:
  "raises env (Task_init t) = None \<Longrightarrow>
   io_bind (new_Task env t) f w = f t (w\<lparr>trace := trace w @ [Called (Task_init t)]\<rparr>)"
  by (simp add: new_Task_def io_bind_def io_then_def extcall_ok)

lemma bind_new_Task_raises:
  "raises env (Task_init t) = Some e \<Longrightarrow>
   io_bind (new_Task env t) f w = (Inl e, w\<lparr>trace := trace w @ [Called (Task_init t)]\<rparr>)"
  by (simp add: new_Task_def io_bind_def io_then_def extcall_raises)

lemma bind_new_Crew_ok:
  "raises env (Crew_init c) = None \<Longrightarrow>
   io_bind (new_Crew env c) f w = f c (w\<lparr>trace := trace w @ [Called (Crew_init c)]\<rparr>)"
  by (simp add: new_Crew_def io_bind_def io_then_def extcall_ok)

lemma bind_new_Crew_raises:
  "raises env (Crew_init c) = Some e \<Longrightarrow>
   io_bind (new_Crew env c) f w = (Inl e, w\<lparr>trace := trace w @ [Called (Crew_init c)]\<rparr>)"
  by (simp add: new_Crew_def io_bind_def io_then_def extcall_raises)

lemma bind_kickoff_ok:
  "raises env (Crew_kickoff c) = None \<Longrightarrow>
   io_bind (kickoff env c) f w =
     f (kickoff_output env c) (w\<lparr>trace := trace w @ [Called (Crew_kickoff c)]\<rparr>)"
  by (simp add: kickoff_def io_bind_def io_then_def extcall_ok)

lemma bind_kickoff_raises:
  "raises env (Crew_kickoff c) = Some e \<Longrightarrow>
   io_bind (kickoff env c) f w = (Inl e, w\<lparr>trace := trace w @ [Called (Crew_kickoff c)]\<rparr>)"
  by (simp add: kickoff_def io_bind_def io_then_def extcall_raises)

lemmas step_simps =
  bind_new_LLM_ok bind_new_LLM_raises bind_new_Agent_ok bind_new_Agent_raises
  bind_new_Task_ok bind_new_Task_raises bind_new_Crew_ok bind_new_Crew_raises
  bind_kickoff_ok bind_kickoff_raises

lemma ctor_raisesI: "is_ctor c \<Longrightarrow> raises env c = Some e \<Longrightarrow> \<exists>c. is_ctor c \<and> raises env c = Some e"
  by blast

section \<open>The outcomes of a generation run\<close>

text \<open>
  The \<open>try\<close> block of main_app.py's worker ends in one of four ways: a constructor before
  the crew raised, the crew's constructor raised, \<open>kickoff\<close> raised, or \<open>kickoff\<close>
  returned and the result was emitted.
\<close>

lemma run_body_outcome:
  fixes env self w
  defines "r \<equiv> fst (run_body env self w)" and "w' \<equiv> snd (run_body env self w)"
    and "crew \<equiv> the_crew self"
  shows "fs w' = fs w \<and>
     ((\<exists>e. (\<exists>c. is_ctor c \<and> raises env c = Some e) \<and> r = Inl e \<and>
         signals (trace w') = signals (trace w) @ [Progress msg_init] \<and>
         crews_built (trace w') = crews_built (trace w) \<and>
         filter is_kickoff (trace w') = filter is_kickoff (trace w))
      \<or> (\<exists>e. raises env (Crew_init crew) = Some e \<and> r = Inl e \<and>
         signals (trace w') = signals (trace w) @ [Progress msg_init, Progress msg_crew] \<and>
         crews_built (trace w') = crews_built (trace w) @ [crew] \<and>
         filter is_kickoff (trace w') = filter is_kickoff (trace w))
      \<or> (\<exists>e. raises env (Crew_kickoff crew) = Some e \<and> r = Inl e \<and>
         signals (trace w') = signals (trace w) @ all_progress \<and>
         crews_built (trace w') = crews_built (trace w) @ [crew] \<and>
         filter is_kickoff (trace w') = filter is_kickoff (trace w) @ [Called (Crew_kickoff crew)])
      \<or> (r = Inr () \<and>
         signals (trace w') =
           signals (trace w) @ all_progress @ [Finished (kickoff_output env crew)] \<and>
         crews_built (trace w') = crews_built (trace w) @ [crew] \<and>
         filter is_kickoff (trace w') = filter is_kickoff (trace w) @ [Called (Crew_kickoff crew)]))"
  unfolding r_def w'_def crew_def run_body_def the_crew_def Let_def all_progress_def
  apply (cases "raises env (LLM_init llm_ollama)")
   prefer 2 subgoal by (simp add: step_simps obs_append) (metis is_ctor.simps(1))
  apply (cases "raises env (Agent_init (planner_agent llm_ollama))")
   prefer 2 subgoal by (simp add: step_simps obs_append) (metis is_ctor.simps(2))
  apply (cases "raises env (Agent_init (coder_agent llm_ollama))")
   prefer 2 subgoal by (simp add: step_simps obs_append) (metis is_ctor.simps(2))
  apply (cases "raises env (Agent_init (reviewer_agent llm_ollama))")
   prefer 2 subgoal by (simp add: step_simps obs_append) (metis is_ctor.simps(2))
  apply (cases "raises env (Task_init (planning_task self (planner_agent llm_ollama)))")
   prefer 2 subgoal by (simp add: step_simps obs_append) (metis is_ctor.simps(3))
  apply (cases "raises env (Task_init (coding_task (coder_agent llm_ollama)
                  (planning_task self (planner_agent llm_ollama))))")
   prefer 2 subgoal by (simp add: step_simps obs_append) (metis is_ctor.simps(3))
  apply (cases "raises env (Task_init (review_task (reviewer_agent llm_ollama)
                  (planning_task self (planner_agent llm_ollama))
                  (coding_task (coder_agent llm_ollama)
                     (planning_task self (planner_agent llm_ollama)))))")
   prefer 2 subgoal by (simp add: step_simps obs_append) (metis is_ctor.simps(3))
  apply (cases "raises env (Crew_init \<lparr>agents = [planner_agent llm_ollama, coder_agent llm_ollama,
                    reviewer_agent llm_ollama],
                  tasks = [planning_task self (planner_agent llm_ollama),
                    coding_task (coder_agent llm_ollama)
                      (planning_task self (planner_agent llm_ollama)),
                    review_task (reviewer_agent llm_ollama)
                      (planning_task self (planner_agent llm_ollama))
                      (coding_task (coder_agent llm_ollama)
                         (planning_task self (planner_agent llm_ollama)))],
                  crew_verbose = True\<rparr>)")
   prefer 2 subgoal by (simp add: step_simps obs_append)
  apply (cases "raises env (Crew_kickoff \<lparr>agents = [planner_agent llm_ollama, coder_agent llm_ollama,
                    reviewer_agent llm_ollama],
                  tasks = [planning_task self (planner_agent llm_ollama),
                    coding_task (coder_agent llm_ollama)
                      (planning_task self (planner_agent llm_ollama)),
                    review_task (reviewer_agent llm_ollama)
                      (planning_task self (planner_agent llm_ollama))
                      (coding_task (coder_agent llm_ollama)
                         (planning_task self (planner_agent llm_ollama)))],
                  crew_verbose = True\<rparr>)")
   prefer 2 subgoal by (simp add: step_simps obs_append)
  by (simp add: step_simps obs_append)

text \<open>
  The improved worker after the language model is built. When \<open>kickoff\<close> returns, the
  packaging step runs in a state \<open>w1\<close> whose file system is still the initial one, and
  the result is emitted from the state \<open>w2\<close> that packaging leaves.
\<close>

lemma run_rest_v2_reaches_packaging:
  assumes "raises env (Agent_init (planner_agent_v2 llm_ollama)) = None"
    and "raises env (Agent_init (coder_agent_v2 llm_ollama)) = None"
    and "raises env (Agent_init (reviewer_agent_v2 llm_ollama)) = None"
    and "raises env (Task_init (hd (tasks (the_crew_v2 env self)))) = None"
    and "raises env (Task_init (hd (tl (tasks (the_crew_v2 env self))))) = None"
    and "raises env (Task_init (hd (tl (tl (tasks (the_crew_v2 env self)))))) = None"
    and "raises env (Crew_init (the_crew_v2 env self)) = None"
    and "raises env (Crew_kickoff (the_crew_v2 env self)) = None"
  shows "\<exists>w1. run_rest_v2 env self llm_ollama w =
           io_bind (create_plugin_package env (kickoff_output env (the_crew_v2 env self)))
             (emit_finished2 env (kickoff_output env (the_crew_v2 env self))) w1 \<and>
         fs w1 = fs w \<and>
         signals (trace w1) = signals (trace w) @ [Progress msg_crew, Progress msg_exec] \<and>
         crews_built (trace w1) = crews_built (trace w) @ [the_crew_v2 env self] \<and>
         filter is_kickoff (trace w1) =
           filter is_kickoff (trace w) @ [Called (Crew_kickoff (the_crew_v2 env self))]"
  apply (intro exI conjI)
      apply (insert assms)
      apply (simp add: run_rest_v2_def the_crew_v2_def Let_def step_simps)
     apply (simp_all add: obs_append the_crew_v2_def Let_def)
  done

lemma packaging_then_emit:
  "\<exists>zp w2. create_plugin_package env out w1 = (Inr zp, w2) \<and>
     signals (trace w2) = signals (trace w1) \<and>
     crews_built (trace w2) = crews_built (trace w1) \<and>
     filter is_kickoff (trace w2) = filter is_kickoff (trace w1) \<and>
     io_bind (create_plugin_package env out) (emit_finished2 env out) w1 =
       (case zp of
          Some p \<Rightarrow> (Inr (), w2\<lparr>trace := trace w2 @ [Emit (Finished2 out (Some p))]\<rparr>)
        | None \<Rightarrow> (case emit_none_error env of
                     Some m \<Rightarrow> (Inl m, w2)
                   | None \<Rightarrow> (Inr (), w2\<lparr>trace := trace w2 @ [Emit (Finished2 out None)]\<rparr>)))"
proof -
  obtain r w2 where pk: "create_plugin_package env out w1 = (r, w2)"
    by (cases "create_plugin_package env out w1")
  then obtain zp evs where r: "r = Inr zp" and tr: "trace w2 = trace w1 @ evs"
    and q: "list_all quiet_event evs"
    by (rule create_plugin_package_effect)
  have "io_bind (create_plugin_package env out) (emit_finished2 env out) w1 =
          emit_finished2 env out zp w2"
    using pk r by (simp add: io_bind_def)
  then show ?thesis
    using pk r tr q
    by (auto simp: emit_finished2_def obs_append quiet_signals quiet_crews_built quiet_kickoff
        split: option.splits)
qed

lemma run_rest_v2_outcome:
  fixes env self w
  defines "r \<equiv> fst (run_rest_v2 env self llm_ollama w)"
    and "w' \<equiv> snd (run_rest_v2 env self llm_ollama w)"
    and "crew \<equiv> the_crew_v2 env self"
  defines "out \<equiv> kickoff_output env crew"
  shows
    "(\<exists>e. (\<exists>c. is_ctor c \<and> raises env c = Some e) \<and> r = Inl e \<and> fs w' = fs w \<and>
         signals (trace w') = signals (trace w) \<and>
         crews_built (trace w') = crews_built (trace w) \<and>
         filter is_kickoff (trace w') = filter is_kickoff (trace w))
     \<or> (\<exists>e. raises env (Crew_init crew) = Some e \<and> r = Inl e \<and> fs w' = fs w \<and>
         signals (trace w') = signals (trace w) @ [Progress msg_crew] \<and>
         crews_built (trace w') = crews_built (trace w) @ [crew] \<and>
         filter is_kickoff (trace w') = filter is_kickoff (trace w))
     \<or> (\<exists>e. raises env (Crew_kickoff crew) = Some e \<and> r = Inl e \<and> fs w' = fs w \<and>
         signals (trace w') = signals (trace w) @ [Progress msg_crew, Progress msg_exec] \<and>
         crews_built (trace w') = crews_built (trace w) @ [crew] \<and>
         filter is_kickoff (trace w') = filter is_kickoff (trace w) @ [Called (Crew_kickoff crew)])
     \<or> (\<exists>w1 zp w2. fs w1 = fs w \<and> create_plugin_package env out w1 = (Inr zp, w2) \<and>
         fs w' = fs w2 \<and>
         crews_built (trace w') = crews_built (trace w) @ [crew] \<and>
         filter is_kickoff (trace w') = filter is_kickoff (trace w) @ [Called (Crew_kickoff crew)] \<and>
         ((\<exists>p. zp = Some p \<and> r = Inr () \<and>
             signals (trace w') =
               signals (trace w) @ [Progress msg_crew, Progress msg_exec, Finished2 out (Some p)])
          \<or> (\<exists>m. zp = None \<and> emit_none_error env = Some m \<and> r = Inl m \<and>
             signals (trace w') = signals (trace w) @ [Progress msg_crew, Progress msg_exec])
          \<or> (zp = None \<and> emit_none_error env = None \<and> r = Inr () \<and>
             signals (trace w') =
               signals (trace w) @ [Progress msg_crew, Progress msg_exec, Finished2 out None])))"
    (is "?D1 \<or> ?D2 \<or> ?D3 \<or> ?D4")
proof -
  let ?planner = "planner_agent_v2 llm_ollama"
  let ?coder = "coder_agent_v2 llm_ollama"
  let ?reviewer = "reviewer_agent_v2 llm_ollama"
  let ?planning = "planning_task_v2 env self ?planner"
  let ?coding = "coding_task_v2 ?coder ?planning"
  let ?review = "review_task_v2 ?reviewer ?planning ?coding"
  have crew: "crew = \<lparr>agents = [?planner, ?coder, ?reviewer],
                       tasks = [?planning, ?coding, ?review], crew_verbose = True\<rparr>"
    by (simp add: crew_def the_crew_v2_def Let_def)
  note defs = r_def w'_def run_rest_v2_def
  consider
      (a1) e where "raises env (Agent_init ?planner) = Some e"
    | (a2) e where "raises env (Agent_init ?planner) = None"
        "raises env (Agent_init ?coder) = Some e"
    | (a3) e where "raises env (Agent_init ?planner) = None"
        "raises env (Agent_init ?coder) = None" "raises env (Agent_init ?reviewer) = Some e"
    | (t1) e where "raises env (Agent_init ?planner) = None"
        "raises env (Agent_init ?coder) = None" "raises env (Agent_init ?reviewer) = None"
        "raises env (Task_init ?planning) = Some e"
    | (t2) e where "raises env (Agent_init ?planner) = None"
        "raises env (Agent_init ?coder) = None" "raises env (Agent_init ?reviewer) = None"
        "raises env (Task_init ?planning) = None" "raises env (Task_init ?coding) = Some e"
    | (t3) e where "raises env (Agent_init ?planner) = None"
        "raises env (Agent_init ?coder) = None" "raises env (Agent_init ?reviewer) = None"
        "raises env (Task_init ?planning) = None" "raises env (Task_init ?coding) = None"
        "raises env (Task_init ?review) = Some e"
    | (cr) e where "raises env (Agent_init ?planner) = None"
        "raises env (Agent_init ?coder) = None" "raises env (Agent_init ?reviewer) = None"
        "raises env (Task_init ?planning) = None" "raises env (Task_init ?coding) = None"
        "raises env (Task_init ?review) = None" "raises env (Crew_init crew) = Some e"
    | (ko) e where "raises env (Agent_init ?planner) = None"
        "raises env (Agent_init ?coder) = None" "raises env (Agent_init ?reviewer) = None"
        "raises env (Task_init ?planning) = None" "raises env (Task_init ?coding) = None"
        "raises env (Task_init ?review) = None" "raises env (Crew_init crew) = None"
        "raises env (Crew_kickoff crew) = Some e"
    | (ok) "raises env (Agent_init ?planner) = None"
        "raises env (Agent_init ?coder) = None" "raises env (Agent_init ?reviewer) = None"
        "raises env (Task_init ?planning) = None" "raises env (Task_init ?coding) = None"
        "raises env (Task_init ?review) = None" "raises env (Crew_init crew) = None"
        "raises env (Crew_kickoff crew) = None"
    by (rule first_failure
          [where ca = "raises env (Agent_init ?planner)" and cb = "raises env (Agent_init ?coder)"
             and cc = "raises env (Agent_init ?reviewer)" and cd = "raises env (Task_init ?planning)"
             and ce = "raises env (Task_init ?coding)" and cf = "raises env (Task_init ?review)"
             and cg = "raises env (Crew_init crew)" and ch = "raises env (Crew_kickoff crew)"])
  then show ?thesis
  proof cases
    case a1
    then have "r = Inl e \<and> fs w' = fs w \<and> signals (trace w') = signals (trace w) \<and>
        crews_built (trace w') = crews_built (trace w) \<and>
        filter is_kickoff (trace w') = filter is_kickoff (trace w)"
      by (simp add: defs step_simps obs_append)
    moreover have "\<exists>c. is_ctor c \<and> raises env c = Some e"
      using a1 is_ctor.simps(2) by blast
    ultimately have "?D1" by blast
    then show ?thesis by (rule disjI1)
  next
    case a2
    then have "r = Inl e \<and> fs w' = fs w \<and> signals (trace w') = signals (trace w) \<and>
        crews_built (trace w') = crews_built (trace w) \<and>
        filter is_kickoff (trace w') = filter is_kickoff (trace w)"
      by (simp add: defs step_simps obs_append)
    moreover have "\<exists>c. is_ctor c \<and> raises env c = Some e"
      using a2 is_ctor.simps(2) by blast
    ultimately have "?D1" by blast
    then show ?thesis by (rule disjI1)
  next
    case a3
    then have "r = Inl e \<and> fs w' = fs w \<and> signals (trace w') = signals (trace w) \<and>
        crews_built (trace w') = crews_built (trace w) \<and>
        filter is_kickoff (trace w') = filter is_kickoff (trace w)"
      by (simp add: defs step_simps obs_append)
    moreover have "\<exists>c. is_ctor c \<and> raises env c = Some e"
      using a3 is_ctor.simps(2) by blast
    ultimately have "?D1" by blast
    then show ?thesis by (rule disjI1)
  next
    case t1
    then have "r = Inl e \<and> fs w' = fs w \<and> signals (trace w') = signals (trace w) \<and>
        crews_built (trace w') = crews_built (trace w) \<and>
        filter is_kickoff (trace w') = filter is_kickoff (trace w)"
      by (simp add: defs step_simps obs_append)
    moreover have "\<exists>c. is_ctor c \<and> raises env c = Some e"
      using t1 is_ctor.simps(3) by blast
    ultimately have "?D1" by blast
    then show ?thesis by (rule disjI1)
  next
    case t2
    then have "r = Inl e \<and> fs w' = fs w \<and> signals (trace w') = signals (trace w) \<and>
        crews_built (trace w') = crews_built (trace w) \<and>
        filter is_kickoff (trace w') = filter is_kickoff (trace w)"
      by (simp add: defs step_simps obs_append)
    moreover have "\<exists>c. is_ctor c \<and> raises env c = Some e"
      using t2 is_ctor.simps(3) by blast
    ultimately have "?D1" by blast
    then show ?thesis by (rule disjI1)
  next
    case t3
    then have "r = Inl e \<and> fs w' = fs w \<and> signals (trace w') = signals (trace w) \<and>
        crews_built (trace w') = crews_built (trace w) \<and>
        filter is_kickoff (trace w') = filter is_kickoff (trace w)"
      by (simp add: defs step_simps obs_append)
    moreover have "\<exists>c. is_ctor c \<and> raises env c = Some e"
      using t3 is_ctor.simps(3) by blast
    ultimately have "?D1" by blast
    then show ?thesis by (rule disjI1)
  next
    case cr
    then have "r = Inl e \<and> fs w' = fs w \<and>
        signals (trace w') = signals (trace w) @ [Progress msg_crew] \<and>
        crews_built (trace w') = crews_built (trace w) @ [crew] \<and>
        filter is_kickoff (trace w') = filter is_kickoff (trace w)"
      unfolding crew by (simp add: defs step_simps obs_append)
    then have d2: "?D2" using cr by blast
    show ?thesis by (rule disjI2, rule disjI1) (rule d2)
  next
    case ko
    then have "r = Inl e \<and> fs w' = fs w \<and>
        signals (trace w') = signals (trace w) @ [Progress msg_crew, Progress msg_exec] \<and>
        crews_built (trace w') = crews_built (trace w) @ [crew] \<and>
        filter is_kickoff (trace w') = filter is_kickoff (trace w) @ [Called (Crew_kickoff crew)]"
      unfolding crew by (simp add: defs step_simps obs_append)
    then have d3: "?D3" using ko by blast
    show ?thesis by (rule disjI2, rule disjI2, rule disjI1) (rule d3)
  next
    case ok
    then obtain w1 where
      eq: "run_rest_v2 env self llm_ollama w =
             io_bind (create_plugin_package env out) (emit_finished2 env out) w1"
      and w1: "fs w1 = fs w"
        "signals (trace w1) = signals (trace w) @ [Progress msg_crew, Progress msg_exec]"
        "crews_built (trace w1) = crews_built (trace w) @ [crew]"
        "filter is_kickoff (trace w1) = filter is_kickoff (trace w) @ [Called (Crew_kickoff crew)]"
      using run_rest_v2_reaches_packaging [of env self w]
      unfolding out_def crew by (auto simp: the_crew_v2_def Let_def)
    obtain zp w2 where pk: "create_plugin_package env out w1 = (Inr zp, w2)"
      and w2: "signals (trace w2) = signals (trace w1)"
        "crews_built (trace w2) = crews_built (trace w1)"
        "filter is_kickoff (trace w2) = filter is_kickoff (trace w1)"
      and fin: "io_bind (create_plugin_package env out) (emit_finished2 env out) w1 =
        (case zp of
           Some p \<Rightarrow> (Inr (), w2\<lparr>trace := trace w2 @ [Emit (Finished2 out (Some p))]\<rparr>)
         | None \<Rightarrow> (case emit_none_error env of
                      Some m \<Rightarrow> (Inl m, w2)
                    | None \<Rightarrow> (Inr (), w2\<lparr>trace := trace w2 @ [Emit (Finished2 out None)]\<rparr>)))"
      using packaging_then_emit [of env out w1] by blast
    have "fs w' = fs w2 \<and>
         crews_built (trace w') = crews_built (trace w) @ [crew] \<and>
         filter is_kickoff (trace w') = filter is_kickoff (trace w) @ [Called (Crew_kickoff crew)] \<and>
         ((\<exists>p. zp = Some p \<and> r = Inr () \<and>
             signals (trace w') =
               signals (trace w) @ [Progress msg_crew, Progress msg_exec, Finished2 out (Some p)])
          \<or> (\<exists>m. zp = None \<and> emit_none_error env = Some m \<and> r = Inl m \<and>
             signals (trace w') = signals (trace w) @ [Progress msg_crew, Progress msg_exec])
          \<or> (zp = None \<and> emit_none_error env = None \<and> r = Inr () \<and>
             signals (trace w') =
               signals (trace w) @ [Progress msg_crew, Progress msg_exec, Finished2 out None]))"
      unfolding r_def w'_def eq fin using w1 w2
      by (cases zp; cases "emit_none_error env") (simp_all add: obs_append)
    then have d4: "?D4" using w1(1) pk by blast
    show ?thesis by (rule disjI2, rule disjI2, rule disjI2) (rule d4)
  qed
qed

lemma try_except_report:
  "try_except m (\<lambda>e. io_then (logging_error (p @ e)) (emit (Error (p @ e)))) w =
     (case fst (m w) of
        Inl e \<Rightarrow> (Inr (), (snd (m w))\<lparr>trace := trace (snd (m w))
                                  @ [Logging_error (p @ e), Emit (Error (p @ e))]\<rparr>)
      | Inr x \<Rightarrow> (Inr x, snd (m w)))"
  by (cases "m w") (simp add: try_except_def split: sum.splits)

lemma run_body_v2_llm_raises:
  assumes "raises env (LLM_init llm_ollama) = Some e"
  shows "fst (run_body_v2 env self w) = Inr () \<and> fs (snd (run_body_v2 env self w)) = fs w \<and>
     signals (trace (snd (run_body_v2 env self w))) =
       signals (trace w) @ [Progress msg_init, Error (err_ollama @ e)] \<and>
     crews_built (trace (snd (run_body_v2 env self w))) = crews_built (trace w) \<and>
     filter is_kickoff (trace (snd (run_body_v2 env self w))) = filter is_kickoff (trace w)"
  using assms
  by (simp add: run_body_v2_def io_bind_def io_then_def try_except_def new_LLM_def
      extcall_raises emit_def logging_info_def record_event_def obs_append)

lemma run_body_v2_llm_ok:
  assumes "raises env (LLM_init llm_ollama) = None"
  shows "\<exists>w0. run_body_v2 env self w = run_rest_v2 env self llm_ollama w0 \<and> fs w0 = fs w \<and>
     signals (trace w0) = signals (trace w) @ [Progress msg_init] \<and>
     crews_built (trace w0) = crews_built (trace w) \<and>
     filter is_kickoff (trace w0) = filter is_kickoff (trace w)"
  apply (intro exI conjI)
      apply (insert assms)
      apply (simp add: run_body_v2_def io_bind_def io_then_def try_except_def new_LLM_def
        extcall_ok emit_def logging_info_def record_event_def)
     apply (simp_all add: obs_append)
  done

text \<open>
  Every run of the improved worker: CrewAI is missing, the language model's constructor
  raised, a later constructor raised, the crew's constructor raised, \<open>kickoff\<close> raised, or
  \<open>kickoff\<close> returned and the packaging step ran, with three endings for the emission of
  the result.
\<close>

lemma run_v2_outcome:
  fixes flags env self w
  defines "w' \<equiv> snd (run_v2 flags env self w)"
    and "b \<equiv> fst (run_body_v2 env self w)"
    and "crew \<equiv> the_crew_v2 env self"
  defines "out \<equiv> kickoff_output env crew"
  shows "fst (run_v2 flags env self w) = Inr () \<and>
    ((\<not> CREWAI_AVAILABLE flags \<and> fs w' = fs w \<and>
        signals (trace w') = signals (trace w) @ [Error err_crewai] \<and>
        crews_built (trace w') = crews_built (trace w) \<and>
        filter is_kickoff (trace w') = filter is_kickoff (trace w))
     \<or> (CREWAI_AVAILABLE flags \<and> (\<exists>e. raises env (LLM_init llm_ollama) = Some e \<and>
        b = Inr () \<and> fs w' = fs w \<and>
        signals (trace w') = signals (trace w) @ [Progress msg_init, Error (err_ollama @ e)] \<and>
        crews_built (trace w') = crews_built (trace w) \<and>
        filter is_kickoff (trace w') = filter is_kickoff (trace w)))
     \<or> (CREWAI_AVAILABLE flags \<and> (\<exists>e. (\<exists>c. is_ctor c \<and> raises env c = Some e) \<and>
        b = Inl e \<and> fs w' = fs w \<and>
        signals (trace w') = signals (trace w) @ [Progress msg_init, Error (err_generation @ e)] \<and>
        crews_built (trace w') = crews_built (trace w) \<and>
        filter is_kickoff (trace w') = filter is_kickoff (trace w)))
     \<or> (CREWAI_AVAILABLE flags \<and> (\<exists>e. raises env (Crew_init crew) = Some e \<and>
        b = Inl e \<and> fs w' = fs w \<and>
        signals (trace w') =
          signals (trace w) @ [Progress msg_init, Progress msg_crew, Error (err_generation @ e)] \<and>
        crews_built (trace w') = crews_built (trace w) @ [crew] \<and>
        filter is_kickoff (trace w') = filter is_kickoff (trace w)))
     \<or> (CREWAI_AVAILABLE flags \<and> (\<exists>e. raises env (Crew_kickoff crew) = Some e \<and>
        b = Inl e \<and> fs w' = fs w \<and>
        signals (trace w') = signals (trace w) @ all_progress @ [Error (err_generation @ e)] \<and>
        crews_built (trace w') = crews_built (trace w) @ [crew] \<and>
        filter is_kickoff (trace w') = filter is_kickoff (trace w) @ [Called (Crew_kickoff crew)]))
     \<or> (CREWAI_AVAILABLE flags \<and>
        (\<exists>w1 zp w2. fs w1 = fs w \<and> create_plugin_package env out w1 = (Inr zp, w2) \<and>
           fs w' = fs w2 \<and>
           crews_built (trace w') = crews_built (trace w) @ [crew] \<and>
           filter is_kickoff (trace w') =
             filter is_kickoff (trace w) @ [Called (Crew_kickoff crew)] \<and>
           ((\<exists>p. zp = Some p \<and> b = Inr () \<and>
               signals (trace w') = signals (trace w) @ all_progress @ [Finished2 out (Some p)])
            \<or> (\<exists>m. zp = None \<and> emit_none_error env = Some m \<and> b = Inl m \<and>
               signals (trace w') =
                 signals (trace w) @ all_progress @ [Error (err_generation @ m)])
            \<or> (zp = None \<and> emit_none_error env = None \<and> b = Inr () \<and>
               signals (trace w') = signals (trace w) @ all_progress @ [Finished2 out None])))))"
    (is "_ \<and> (?D1 \<or> ?D2 \<or> ?D3 \<or> ?D4 \<or> ?D5 \<or> ?D6)")
proof (cases "CREWAI_AVAILABLE flags")
  case False
  then show ?thesis
    by (simp add: w'_def run_v2_def obs_append)
next
  case avail: True
  have run: "run_v2 flags env self w =
     (case b of
        Inl e \<Rightarrow> (Inr (), (snd (run_body_v2 env self w))\<lparr>trace :=
                    trace (snd (run_body_v2 env self w))
                    @ [Logging_error (err_generation @ e), Emit (Error (err_generation @ e))]\<rparr>)
      | Inr x \<Rightarrow> (Inr x, snd (run_body_v2 env self w)))"
    using avail by (simp add: run_v2_def try_except_report b_def)
  show ?thesis
  proof (cases "raises env (LLM_init llm_ollama)")
    case (Some e)
    from run_body_v2_llm_raises [OF this, of self w] show ?thesis
      using avail Some unfolding w'_def run b_def by (simp add: obs_append)
  next
    case None
    from run_body_v2_llm_ok [OF this, of self w] obtain w0
      where eq: "run_body_v2 env self w = run_rest_v2 env self llm_ollama w0"
        and w0: "fs w0 = fs w" "signals (trace w0) = signals (trace w) @ [Progress msg_init]"
          "crews_built (trace w0) = crews_built (trace w)"
          "filter is_kickoff (trace w0) = filter is_kickoff (trace w)"
      by blast
    note rest = run_rest_v2_outcome [of env self w0, folded eq, folded b_def crew_def,
        folded out_def]
    have fst_ok: "fst (run_v2 flags env self w) = Inr ()"
      unfolding run by (cases b) simp_all
    from rest show ?thesis
    proof (elim disjE exE conjE)
      fix e c
      assume "is_ctor c" "raises env c = Some e" "b = Inl e"
        "fs (snd (run_body_v2 env self w)) = fs w0"
        "signals (trace (snd (run_body_v2 env self w))) = signals (trace w0)"
        "crews_built (trace (snd (run_body_v2 env self w))) = crews_built (trace w0)"
        "filter is_kickoff (trace (snd (run_body_v2 env self w))) = filter is_kickoff (trace w0)"
      then have "(\<exists>c. is_ctor c \<and> raises env c = Some e) \<and>
        b = Inl e \<and> fs w' = fs w \<and>
        signals (trace w') = signals (trace w) @ [Progress msg_init, Error (err_generation @ e)] \<and>
        crews_built (trace w') = crews_built (trace w) \<and>
        filter is_kickoff (trace w') = filter is_kickoff (trace w)"
        unfolding w'_def run using w0 by (auto simp: obs_append)
      then have "?D3" using avail by blast
      then show ?thesis using fst_ok by (intro conjI) (assumption, rule disjI2, rule disjI2, rule disjI1)
    next
      fix e
      assume "raises env (Crew_init crew) = Some e" "b = Inl e"
        "fs (snd (run_body_v2 env self w)) = fs w0"
        "signals (trace (snd (run_body_v2 env self w))) = signals (trace w0) @ [Progress msg_crew]"
        "crews_built (trace (snd (run_body_v2 env self w))) = crews_built (trace w0) @ [crew]"
        "filter is_kickoff (trace (snd (run_body_v2 env self w))) = filter is_kickoff (trace w0)"
      then have "raises env (Crew_init crew) = Some e \<and>
        b = Inl e \<and> fs w' = fs w \<and>
        signals (trace w') =
          signals (trace w) @ [Progress msg_init, Progress msg_crew, Error (err_generation @ e)] \<and>
        crews_built (trace w') = crews_built (trace w) @ [crew] \<and>
        filter is_kickoff (trace w') = filter is_kickoff (trace w)"
        unfolding w'_def run using w0 by (auto simp: obs_append)
      then have "?D4" using avail by blast
      then show ?thesis using fst_ok by (intro conjI) (assumption, rule disjI2, rule disjI2, rule disjI2, rule disjI1)
    next
      fix e
      assume "raises env (Crew_kickoff crew) = Some e" "b = Inl e"
        "fs (snd (run_body_v2 env self w)) = fs w0"
        "signals (trace (snd (run_body_v2 env self w))) =
           signals (trace w0) @ [Progress msg_crew, Progress msg_exec]"
        "crews_built (trace (snd (run_body_v2 env self w))) = crews_built (trace w0) @ [crew]"
        "filter is_kickoff (trace (snd (run_body_v2 env self w))) =
           filter is_kickoff (trace w0) @ [Called (Crew_kickoff crew)]"
      then have "raises env (Crew_kickoff crew) = Some e \<and>
        b = Inl e \<and> fs w' = fs w \<and>
        signals (trace w') = signals (trace w) @ all_progress @ [Error (err_generation @ e)] \<and>
        crews_built (trace w') = crews_built (trace w) @ [crew] \<and>
        filter is_kickoff (trace w') = filter is_kickoff (trace w) @ [Called (Crew_kickoff crew)]"
        unfolding w'_def run using w0 by (auto simp: obs_append all_progress_def)
      then have "?D5" using avail by blast
      then show ?thesis using fst_ok by (intro conjI) (assumption, rule disjI2, rule disjI2, rule disjI2, rule disjI2, rule disjI1)
    next
      fix w1 zp w2 p
      assume "fs w1 = fs w0" "create_plugin_package env out w1 = (Inr zp, w2)"
        "fs (snd (run_body_v2 env self w)) = fs w2"
        "crews_built (trace (snd (run_body_v2 env self w))) = crews_built (trace w0) @ [crew]"
        "filter is_kickoff (trace (snd (run_body_v2 env self w))) =
           filter is_kickoff (trace w0) @ [Called (Crew_kickoff crew)]"
        "zp = Some p" "b = Inr ()"
        "signals (trace (snd (run_body_v2 env self w))) =
           signals (trace w0) @ [Progress msg_crew, Progress msg_exec, Finished2 out (Some p)]"
      then have "fs w1 = fs w \<and> create_plugin_package env out w1 = (Inr zp, w2) \<and>
           fs w' = fs w2 \<and>
           crews_built (trace w') = crews_built (trace w) @ [crew] \<and>
           filter is_kickoff (trace w') =
             filter is_kickoff (trace w) @ [Called (Crew_kickoff crew)] \<and>
           zp = Some p \<and> b = Inr () \<and>
           signals (trace w') = signals (trace w) @ all_progress @ [Finished2 out (Some p)]"
        unfolding w'_def run using w0 by (auto simp: obs_append all_progress_def)
      then have "?D6" using avail by blast
      then show ?thesis using fst_ok by (intro conjI) (assumption, rule disjI2, rule disjI2, rule disjI2, rule disjI2, rule disjI2)
    next
      fix w1 zp w2 m
      assume "fs w1 = fs w0" "create_plugin_package env out w1 = (Inr zp, w2)"
        "fs (snd (run_body_v2 env self w)) = fs w2"
        "crews_built (trace (snd (run_body_v2 env self w))) = crews_built (trace w0) @ [crew]"
        "filter is_kickoff (trace (snd (run_body_v2 env self w))) =
           filter is_kickoff (trace w0) @ [Called (Crew_kickoff crew)]"
        "zp = None" "emit_none_error env = Some m" "b = Inl m"
        "signals (trace (snd (run_body_v2 env self w))) =
           signals (trace w0) @ [Progress msg_crew, Progress msg_exec]"
      then have "fs w1 = fs w \<and> create_plugin_package env out w1 = (Inr zp, w2) \<and>
           fs w' = fs w2 \<and>
           crews_built (trace w') = crews_built (trace w) @ [crew] \<and>
           filter is_kickoff (trace w') =
             filter is_kickoff (trace w) @ [Called (Crew_kickoff crew)] \<and>
           zp = None \<and> emit_none_error env = Some m \<and> b = Inl m \<and>
           signals (trace w') = signals (trace w) @ all_progress @ [Error (err_generation @ m)]"
        unfolding w'_def run using w0 by (auto simp: obs_append all_progress_def)
      then have "?D6" using avail by blast
      then show ?thesis using fst_ok by (intro conjI) (assumption, rule disjI2, rule disjI2, rule disjI2, rule disjI2, rule disjI2)
    next
      fix w1 zp w2
      assume "fs w1 = fs w0" "create_plugin_package env out w1 = (Inr zp, w2)"
        "fs (snd (run_body_v2 env self w)) = fs w2"
        "crews_built (trace (snd (run_body_v2 env self w))) = crews_built (trace w0) @ [crew]"
        "filter is_kickoff (trace (snd (run_body_v2 env self w))) =
           filter is_kickoff (trace w0) @ [Called (Crew_kickoff crew)]"
        "zp = None" "emit_none_error env = None" "b = Inr ()"
        "signals (trace (snd (run_body_v2 env self w))) =
           signals (trace w0) @ [Progress msg_crew, Progress msg_exec, Finished2 out None]"
      then have "fs w1 = fs w \<and> create_plugin_package env out w1 = (Inr zp, w2) \<and>
           fs w' = fs w2 \<and>
           crews_built (trace w') = crews_built (trace w) @ [crew] \<and>
           filter is_kickoff (trace w') =
             filter is_kickoff (trace w) @ [Called (Crew_kickoff crew)] \<and>
           zp = None \<and> emit_none_error env = None \<and> b = Inr () \<and>
           signals (trace w') = signals (trace w) @ all_progress @ [Finished2 out None]"
        unfolding w'_def run using w0 by (auto simp: obs_append all_progress_def)
      then have "?D6" using avail by blast
      then show ?thesis using fst_ok by (intro conjI) (assumption, rule disjI2, rule disjI2, rule disjI2, rule disjI2, rule disjI2)
    qed
  qed
qed

text \<open>
  Every run of main_app.py's worker, with its handler: the file system is untouched and
  the run ends in one of the four ways of its \<open>try\<close> block.
\<close>

lemma run_outcome:
  fixes env self w
  defines "w' \<equiv> snd (run env self w)"
    and "b \<equiv> fst (run_body env self w)"
    and "crew \<equiv> the_crew self"
  shows "fst (run env self w) = Inr () \<and> fs w' = fs w \<and>
    ((\<exists>e. (\<exists>c. is_ctor c \<and> raises env c = Some e) \<and> b = Inl e \<and>
        signals (trace w') = signals (trace w) @ [Progress msg_init, Error (err_generation @ e)] \<and>
        crews_built (trace w') = crews_built (trace w) \<and>
        filter is_kickoff (trace w') = filter is_kickoff (trace w))
     \<or> (\<exists>e. raises env (Crew_init crew) = Some e \<and> b = Inl e \<and>
        signals (trace w') =
          signals (trace w) @ [Progress msg_init, Progress msg_crew, Error (err_generation @ e)] \<and>
        crews_built (trace w') = crews_built (trace w) @ [crew] \<and>
        filter is_kickoff (trace w') = filter is_kickoff (trace w))
     \<or> (\<exists>e. raises env (Crew_kickoff crew) = Some e \<and> b = Inl e \<and>
        signals (trace w') = signals (trace w) @ all_progress @ [Error (err_generation @ e)] \<and>
        crews_built (trace w') = crews_built (trace w) @ [crew] \<and>
        filter is_kickoff (trace w') = filter is_kickoff (trace w) @ [Called (Crew_kickoff crew)])
     \<or> (b = Inr () \<and>
        signals (trace w') =
          signals (trace w) @ all_progress @ [Finished (kickoff_output env crew)] \<and>
        crews_built (trace w') = crews_built (trace w) @ [crew] \<and>
        filter is_kickoff (trace w') = filter is_kickoff (trace w) @ [Called (Crew_kickoff crew)]))"
    (is "_ \<and> _ \<and> (?D1 \<or> ?D2 \<or> ?D3 \<or> ?D4)")
proof -
  have run: "run env self w =
     (case b of
        Inl e \<Rightarrow> (Inr (), (snd (run_body env self w))\<lparr>trace :=
                    trace (snd (run_body env self w))
                    @ [Logging_error (err_generation @ e), Emit (Error (err_generation @ e))]\<rparr>)
      | Inr x \<Rightarrow> (Inr x, snd (run_body env self w)))"
    by (simp add: run_def try_except_report b_def)
  note body = run_body_outcome [of env self w, folded b_def crew_def]
  have fst_ok: "fst (run env self w) = Inr ()"
    unfolding run by (cases b) simp_all
  have fs_ok: "fs w' = fs w"
    unfolding w'_def run using body by (cases b) simp_all
  from body have "?D1 \<or> ?D2 \<or> ?D3 \<or> ?D4"
  proof (elim disjE exE conjE)
    fix e c
    assume "is_ctor c" "raises env c = Some e" "b = Inl e"
      "signals (trace (snd (run_body env self w))) = signals (trace w) @ [Progress msg_init]"
      "crews_built (trace (snd (run_body env self w))) = crews_built (trace w)"
      "filter is_kickoff (trace (snd (run_body env self w))) = filter is_kickoff (trace w)"
    then have "is_ctor c \<and> raises env c = Some e \<and> b = Inl e \<and>
        signals (trace w') = signals (trace w) @ [Progress msg_init, Error (err_generation @ e)] \<and>
        crews_built (trace w') = crews_built (trace w) \<and>
        filter is_kickoff (trace w') = filter is_kickoff (trace w)"
      unfolding w'_def run by (simp add: obs_append)
    then have "?D1" by blast
    then show ?thesis by (rule disjI1)
  next
    fix e
    assume "raises env (Crew_init crew) = Some e" "b = Inl e"
      "signals (trace (snd (run_body env self w))) =
         signals (trace w) @ [Progress msg_init, Progress msg_crew]"
      "crews_built (trace (snd (run_body env self w))) = crews_built (trace w) @ [crew]"
      "filter is_kickoff (trace (snd (run_body env self w))) = filter is_kickoff (trace w)"
    then have "raises env (Crew_init crew) = Some e \<and> b = Inl e \<and>
        signals (trace w') =
          signals (trace w) @ [Progress msg_init, Progress msg_crew, Error (err_generation @ e)] \<and>
        crews_built (trace w') = crews_built (trace w) @ [crew] \<and>
        filter is_kickoff (trace w') = filter is_kickoff (trace w)"
      unfolding w'_def run by (simp add: obs_append)
    then have d: "?D2" by blast
    show ?thesis by (rule disjI2, rule disjI1) (rule d)
  next
    fix e
    assume "raises env (Crew_kickoff crew) = Some e" "b = Inl e"
      "signals (trace (snd (run_body env self w))) = signals (trace w) @ all_progress"
      "crews_built (trace (snd (run_body env self w))) = crews_built (trace w) @ [crew]"
      "filter is_kickoff (trace (snd (run_body env self w))) =
         filter is_kickoff (trace w) @ [Called (Crew_kickoff crew)]"
    then have "raises env (Crew_kickoff crew) = Some e \<and> b = Inl e \<and>
        signals (trace w') = signals (trace w) @ all_progress @ [Error (err_generation @ e)] \<and>
        crews_built (trace w') = crews_built (trace w) @ [crew] \<and>
        filter is_kickoff (trace w') = filter is_kickoff (trace w) @ [Called (Crew_kickoff crew)]"
      unfolding w'_def run by (simp add: obs_append)
    then have d: "?D3" by blast
    show ?thesis by (rule disjI2, rule disjI2, rule disjI1) (rule d)
  next
    assume "b = Inr ()"
      "signals (trace (snd (run_body env self w))) =
         signals (trace w) @ all_progress @ [Finished (kickoff_output env crew)]"
      "crews_built (trace (snd (run_body env self w))) = crews_built (trace w) @ [crew]"
      "filter is_kickoff (trace (snd (run_body env self w))) =
         filter is_kickoff (trace w) @ [Called (Crew_kickoff crew)]"
    then have d: "?D4"
      unfolding w'_def run by (simp add: obs_append)
    show ?thesis by (rule disjI2, rule disjI2, rule disjI2) (rule d)
  qed
  with fst_ok fs_ok show ?thesis by (intro conjI)
qed

text \<open>What the crews built and the kickoffs of a run can be.\<close>

lemma run_crews_kickoffs:
  "(crews_built (trace (snd (run env self w))) = crews_built (trace w) \<or>
    crews_built (trace (snd (run env self w))) = crews_built (trace w) @ [the_crew self]) \<and>
   (filter is_kickoff (trace (snd (run env self w))) = filter is_kickoff (trace w) \<or>
    filter is_kickoff (trace (snd (run env self w))) =
      filter is_kickoff (trace w) @ [Called (Crew_kickoff (the_crew self))])"
  using run_outcome [of env self w] by (elim conjE disjE exE) simp_all

lemma run_v2_crews_kickoffs:
  "(crews_built (trace (snd (run_v2 flags env self w))) = crews_built (trace w) \<or>
    crews_built (trace (snd (run_v2 flags env self w))) =
      crews_built (trace w) @ [the_crew_v2 env self]) \<and>
   (filter is_kickoff (trace (snd (run_v2 flags env self w))) = filter is_kickoff (trace w) \<or>
    filter is_kickoff (trace (snd (run_v2 flags env self w))) =
      filter is_kickoff (trace w) @ [Called (Crew_kickoff (the_crew_v2 env self))])"
  using run_v2_outcome [of flags env self w] by (elim conjE disjE exE) simp_all

lemma trace_start [simp]: "trace (start root) = []"
  by (simp add: start_def)

lemma fs_start [simp]: "fs (start root) = root"
  by (simp add: start_def)

lemma the_crew_tasks:
  "\<exists>planning coding review. tasks (the_crew self) = [planning, coding, review] \<and>
     task_context planning = None \<and> task_context coding = Some [planning] \<and>
     task_context review = Some [planning, coding]"
  by (simp add: the_crew_def Let_def planning_task_def coding_task_def review_task_def)

lemma the_crew_v2_tasks:
  "\<exists>planning coding review. tasks (the_crew_v2 env self) = [planning, coding, review] \<and>
     task_context planning = None \<and> task_context coding = Some [planning] \<and>
     task_context review = Some [planning, coding]"
  by (simp add: the_crew_v2_def Let_def planning_task_v2_def coding_task_v2_def review_task_v2_def)

section \<open>Evaluating a run on the example inputs\<close>

lemma raises_env0 [simp]: "raises env0 c = None"
  by (simp add: env0_def)

lemma run_env0:
  "crews_built (trace (snd (run env0 request0 (start fs0)))) = [the_crew request0]"
  using run_outcome [of env0 request0 "start fs0"] by simp

lemma run_v2_env0:
  "crews_built (trace (snd (run_v2 all_available env0 request0_v2 (start fs0)))) =
     [the_crew_v2 env0 request0_v2]"
  using run_v2_outcome [of all_available env0 request0_v2 "start fs0"]
  by (auto simp: all_available_def)

section \<open>C1: context hand-off between the tasks\<close>

text \<open>
  C1. In both programs, every crew that a generation run builds, for every request and
  whatever the environment does, holds three tasks: the planning task of that request
  with no context, the coding task whose context is exactly the planning task, and the
  review task whose context is exactly the planning task followed by the coding task.
\<close>

theorem context_handoff:
  "(\<forall>crew \<in> set (crews_built (trace (snd (run env self (start root))))).
      \<exists>planning coding review. tasks crew = [planning, coding, review] \<and>
        planning = planning_task self (planner_agent llm_ollama) \<and>
        task_context planning = None \<and>
        task_context coding = Some [planning] \<and>
        task_context review = Some [planning, coding]) \<and>
   (\<forall>crew \<in> set (crews_built (trace (snd (run_v2 flags env self2 (start root))))).
      \<exists>planning coding review. tasks crew = [planning, coding, review] \<and>
        planning = planning_task_v2 env self2 (planner_agent_v2 llm_ollama) \<and>
        task_context planning = None \<and>
        task_context coding = Some [planning] \<and>
        task_context review = Some [planning, coding])"
proof (intro conjI ballI)
  fix crew
  assume "crew \<in> set (crews_built (trace (snd (run env self (start root)))))"
  then have "crew = the_crew self"
    using run_crews_kickoffs [of env self "start root"] by auto
  then show "\<exists>planning coding review. tasks crew = [planning, coding, review] \<and>
        planning = planning_task self (planner_agent llm_ollama) \<and>
        task_context planning = None \<and>
        task_context coding = Some [planning] \<and>
        task_context review = Some [planning, coding]"
    by (simp add: the_crew_def Let_def planning_task_def coding_task_def review_task_def)
next
  fix crew
  assume "crew \<in> set (crews_built (trace (snd (run_v2 flags env self2 (start root)))))"
  then have "crew = the_crew_v2 env self2"
    using run_v2_crews_kickoffs [of flags env self2 "start root"] by auto
  then show "\<exists>planning coding review. tasks crew = [planning, coding, review] \<and>
        planning = planning_task_v2 env self2 (planner_agent_v2 llm_ollama) \<and>
        task_context planning = None \<and>
        task_context coding = Some [planning] \<and>
        task_context review = Some [planning, coding]"
    by (simp add: the_crew_v2_def Let_def planning_task_v2_def coding_task_v2_def
        review_task_v2_def)
qed

theorem context_handoff_witness:
  "the_crew request0 \<in> set (crews_built (trace (snd (run env0 request0 (start fs0))))) \<and>
   the_crew_v2 env0 request0_v2
     \<in> set (crews_built (trace (snd (run_v2 all_available env0 request0_v2 (start fs0))))) \<and>
   (\<exists>planning coding review. tasks (the_crew request0) = [planning, coding, review] \<and>
      task_context coding = Some [planning] \<and> task_context review = Some [planning, coding]) \<and>
   (\<exists>planning coding review. tasks (the_crew_v2 env0 request0_v2) = [planning, coding, review] \<and>
      task_context coding = Some [planning] \<and> task_context review = Some [planning, coding])"
proof -
  have a: "the_crew request0 \<in> set (crews_built (trace (snd (run env0 request0 (start fs0)))))"
    by (simp add: run_env0)
  have b: "the_crew_v2 env0 request0_v2
      \<in> set (crews_built (trace (snd (run_v2 all_available env0 request0_v2 (start fs0)))))"
    by (simp add: run_v2_env0)
  from context_handoff [of env0 request0 fs0 all_available request0_v2] a b
  show ?thesis by blast
qed

end
